theory Spec2Isabelle
  imports Main
begin

section \<open>JavaScript values and strings\<close>

text \<open>
  The server is an Express application (\<^verbatim>\<open>src/unnamed/part_000\<close>, from the line
  \<^verbatim>\<open>const express = require('express')\<close> on). Request bodies arrive through
  \<^verbatim>\<open>express.json()\<close>, so they are JSON documents. An object is given by its own
  properties in enumeration order, with distinct keys. Numbers are integers here
  (fractions are not part of the model). A JavaScript string is a sequence of code
  units; a \<^typ>\<open>char\<close> stands for one code unit below 256.
\<close>

datatype json =
    JNull
  | JBool bool
  | JNum int
  | JStr string
  | JArr "json list"
  | JObj "(string \<times> json) list"

text \<open>Property access \<^verbatim>\<open>v[key]\<close>; \<open>None\<close> is \<^verbatim>\<open>undefined\<close>.\<close>

fun get_prop :: "json \<Rightarrow> string \<Rightarrow> json option" where
  "get_prop (JObj kvs) k = map_of kvs k"
| "get_prop _ k = None"

text \<open>Truthiness, as tested by \<^verbatim>\<open>!x\<close> and \<^verbatim>\<open>x ? a : b\<close>.\<close>

fun truthy :: "json option \<Rightarrow> bool" where
  "truthy None = False"
| "truthy (Some JNull) = False"
| "truthy (Some (JBool b)) = b"
| "truthy (Some (JNum n)) = (n \<noteq> 0)"
| "truthy (Some (JStr s)) = (s \<noteq> [])"
| "truthy (Some (JArr xs)) = True"
| "truthy (Some (JObj kvs)) = True"

definition nl :: char where
  "nl = CHR 0x0A"

definition dquote :: char where
  "dquote = CHR 0x22"

definition backslash :: char where
  "backslash = CHR 0x5C"

text \<open>
  White space as \<^verbatim>\<open>String.prototype.trim\<close> and the regular expression class
  \<^verbatim>\<open>\s\<close> see it (the two agree): TAB, LF, VT, FF, CR, SPACE and NBSP among the
  code units below 256.
\<close>

definition is_space :: "char \<Rightarrow> bool" where
  "is_space c = ((of_char c :: nat) \<in> {9, 10, 11, 12, 13, 32, 160})"

text \<open>The class \<^verbatim>\<open>[0-9]\<close>.\<close>

definition is_digit :: "char \<Rightarrow> bool" where
  "is_digit c = (48 \<le> (of_char c :: nat) \<and> (of_char c :: nat) \<le> 57)"

text \<open>\<^verbatim>\<open>s.trim()\<close>\<close>

definition trim :: "string \<Rightarrow> string" where
  "trim s = rev (dropWhile is_space (rev (dropWhile is_space s)))"

text \<open>
  \<^verbatim>\<open>s.split(sep)\<close> for a one-character separator: the pieces between the
  separators, \<open>[[]]\<close> for the empty string, an empty last piece when \<open>s\<close> ends in
  the separator.
\<close>

fun js_split :: "char \<Rightarrow> string \<Rightarrow> string list" where
  "js_split sep [] = [[]]"
| "js_split sep (c # cs) =
     (if c = sep then [] # js_split sep cs
      else (case js_split sep cs of
              [] \<Rightarrow> [[c]]
            | l # ls \<Rightarrow> (c # l) # ls))"

text \<open>Decimal digits of a natural number and of an integer, as \<^verbatim>\<open>String(n)\<close> prints them.\<close>

definition digit_char :: "nat \<Rightarrow> char" where
  "digit_char d = char_of (48 + d)"

fun dec_nat :: "nat \<Rightarrow> string" where
  "dec_nat n = (if n < 10 then [digit_char n] else dec_nat (n div 10) @ [digit_char (n mod 10)])"

definition dec_int :: "int \<Rightarrow> string" where
  "dec_int i = (if i < 0 then CHR ''-'' # dec_nat (nat (- i)) else dec_nat (nat i))"

text \<open>\<^verbatim>\<open>xs.join(sep)\<close> on strings.\<close>

fun join :: "string \<Rightarrow> string list \<Rightarrow> string" where
  "join sep [] = []"
| "join sep [x] = x"
| "join sep (x # y # ys) = x @ sep @ join sep (y # ys)"

text \<open>
  \<^verbatim>\<open>String(v)\<close>, the conversion a template literal \<^verbatim>\<open>${v}\<close> applies. An array
  joins its elements with commas, printing \<^verbatim>\<open>null\<close> elements as the empty string;
  a plain object prints as \<^verbatim>\<open>[object Object]\<close>.
\<close>

fun to_string :: "json \<Rightarrow> string" where
  "to_string JNull = ''null''"
| "to_string (JBool b) = (if b then ''true'' else ''false'')"
| "to_string (JNum n) = dec_int n"
| "to_string (JStr s) = s"
| "to_string (JArr xs) = join '','' (map (\<lambda>x. if x = JNull then [] else to_string x) xs)"
| "to_string (JObj kvs) = ''[object Object]''"

definition interpolate :: "json option \<Rightarrow> string" where
  "interpolate v = (case v of None \<Rightarrow> ''undefined'' | Some x \<Rightarrow> to_string x)"

text \<open>
  \<^verbatim>\<open>JSON.stringify\<close>. A string is quoted; the quote, the backslash and the control
  characters are escaped, the latter as \<^verbatim>\<open>\b \t \n \f \r\<close> or \<^verbatim>\<open>\u00XX\<close>.
\<close>

definition hex_digit :: "nat \<Rightarrow> char" where
  "hex_digit d = (if d < 10 then char_of (48 + d) else char_of (87 + d))"

definition quote_char :: "char \<Rightarrow> string" where
  "quote_char c =
     (let n = (of_char c :: nat) in
      if c = dquote then [backslash, dquote]
      else if c = backslash then [backslash, backslash]
      else if n = 8 then [backslash, CHR ''b'']
      else if n = 9 then [backslash, CHR ''t'']
      else if n = 10 then [backslash, CHR ''n'']
      else if n = 12 then [backslash, CHR ''f'']
      else if n = 13 then [backslash, CHR ''r'']
      else if n < 32 then [backslash, CHR ''u'', CHR ''0'', CHR ''0'',
                           hex_digit (n div 16), hex_digit (n mod 16)]
      else [c])"

definition quote :: "string \<Rightarrow> string" where
  "quote s = dquote # concat (map quote_char s) @ [dquote]"

fun JSON_stringify :: "json \<Rightarrow> string" where
  "JSON_stringify JNull = ''null''"
| "JSON_stringify (JBool b) = (if b then ''true'' else ''false'')"
| "JSON_stringify (JNum n) = dec_int n"
| "JSON_stringify (JStr s) = quote s"
| "JSON_stringify (JArr xs) = ''['' @ join '','' (map JSON_stringify xs) @ '']''"
| "JSON_stringify (JObj kvs) =
     ''{'' @ join '','' (map (\<lambda>(k, v). quote k @ '':'' @ JSON_stringify v) kvs) @ ''}''"

section \<open>Input validation: the zod schema\<close>

text \<open>
  \<^verbatim>\<open>zod\<close> is a library the server imports. A schema is modelled by its parser: given
  the path of the value inside the request and the value itself (\<open>None\<close> for
  \<^verbatim>\<open>undefined\<close>), it returns the parsed value or the issues found. Of an issue the
  model keeps the code, the path and the message. An object schema parses every key
  of its shape and reports the issues of all of them, in the order of the shape; keys
  outside the shape are dropped.
\<close>

record issue =
  code :: string
  path :: "string list"
  message :: string

type_synonym 'a zod = "string list \<Rightarrow> json option \<Rightarrow> issue list + 'a"

text \<open>The name zod gives to the type of a received value.\<close>

fun parsed_type :: "json option \<Rightarrow> string" where
  "parsed_type None = ''undefined''"
| "parsed_type (Some JNull) = ''null''"
| "parsed_type (Some (JBool b)) = ''boolean''"
| "parsed_type (Some (JNum n)) = ''number''"
| "parsed_type (Some (JStr s)) = ''string''"
| "parsed_type (Some (JArr xs)) = ''array''"
| "parsed_type (Some (JObj kvs)) = ''object''"

definition invalid_type :: "string \<Rightarrow> json option \<Rightarrow> string list \<Rightarrow> issue" where
  "invalid_type expected v p =
     \<lparr>code = ''invalid_type'', path = p,
      message = (if v = None then ''Required''
                 else ''Expected '' @ expected @ '', received '' @ parsed_type v)\<rparr>"

text \<open>\<^verbatim>\<open>z.string()\<close>\<close>

definition z_string :: "string zod" where
  "z_string p v = (case v of Some (JStr s) \<Rightarrow> Inr s | _ \<Rightarrow> Inl [invalid_type ''string'' v p])"

text \<open>\<^verbatim>\<open>z.string().min(n, msg)\<close>: the length check runs on strings only.\<close>

definition z_string_min :: "nat \<Rightarrow> string \<Rightarrow> string zod" where
  "z_string_min n msg p v =
     (case z_string p v of
        Inl is \<Rightarrow> Inl is
      | Inr s \<Rightarrow> if length s < n then Inl [\<lparr>code = ''too_small'', path = p, message = msg\<rparr>]
                 else Inr s)"

text \<open>\<^verbatim>\<open>z.boolean()\<close>\<close>

definition z_boolean :: "bool zod" where
  "z_boolean p v = (case v of Some (JBool b) \<Rightarrow> Inr b | _ \<Rightarrow> Inl [invalid_type ''boolean'' v p])"

text \<open>\<^verbatim>\<open>z.enum(values)\<close>\<close>

definition enum_names :: "string list \<Rightarrow> string" where
  "enum_names vs = join '' | '' (map (\<lambda>s. [CHR 0x27] @ s @ [CHR 0x27]) vs)"

definition z_enum :: "string list \<Rightarrow> string zod" where
  "z_enum vs p v =
     (case v of
        Some (JStr s) \<Rightarrow>
          if s \<in> set vs then Inr s
          else Inl [\<lparr>code = ''invalid_enum_value'', path = p,
                     message = ''Invalid enum value. Expected '' @ enum_names vs @
                               '', received '' @ [CHR 0x27] @ s @ [CHR 0x27]\<rparr>]
      | _ \<Rightarrow> Inl [invalid_type (enum_names vs) v p])"

text \<open>\<^verbatim>\<open>schema.optional()\<close>\<close>

definition z_optional :: "'a zod \<Rightarrow> 'a option zod" where
  "z_optional schema p v =
     (case v of
        None \<Rightarrow> Inr None
      | Some x \<Rightarrow> (case schema p v of Inl is \<Rightarrow> Inl is | Inr a \<Rightarrow> Inr (Some a)))"

text \<open>
  \<^verbatim>\<open>schema.optional().default(d)\<close>: an absent value is replaced by the default, a
  present one goes through the schema.
\<close>

definition z_optional_default :: "'a zod \<Rightarrow> 'a \<Rightarrow> 'a zod" where
  "z_optional_default schema d p v = (case v of None \<Rightarrow> Inr d | Some x \<Rightarrow> schema p v)"

text \<open>Joining the results of two keys: the issues of both are kept, in order.\<close>

fun ap :: "issue list + ('a \<Rightarrow> 'b) \<Rightarrow> issue list + 'a \<Rightarrow> issue list + 'b" where
  "ap (Inr f) (Inr x) = Inr (f x)"
| "ap (Inr f) (Inl is) = Inl is"
| "ap (Inl is) (Inr x) = Inl is"
| "ap (Inl is) (Inl js) = Inl (is @ js)"

text \<open>\<^verbatim>\<open>z.record(schema)\<close>: an object whose every value matches the schema.\<close>

fun z_record_entries :: "'a zod \<Rightarrow> string list \<Rightarrow> (string \<times> json) list \<Rightarrow>
    issue list + (string \<times> 'a) list" where
  "z_record_entries schema p [] = Inr []"
| "z_record_entries schema p ((k, x) # kvs) =
     ap (ap (Inr (\<lambda>a rest. (k, a) # rest)) (schema (p @ [k]) (Some x)))
        (z_record_entries schema p kvs)"

definition z_record :: "'a zod \<Rightarrow> (string \<times> 'a) list zod" where
  "z_record schema p v =
     (case v of
        Some (JObj kvs) \<Rightarrow> z_record_entries schema p kvs
      | _ \<Rightarrow> Inl [invalid_type ''object'' v p])"

text \<open>The value \<^verbatim>\<open>contentSchema.parse\<close> returns.\<close>

record preferences =
  platforms :: "(string \<times> bool) list option"
  tonePreference :: "string option"
  contentLength :: "string option"
  hashtagPreference :: "string option"

record content =
  postType :: string
  topic :: string
  audience :: string
  style :: string
  guidelines :: string
  preferences :: "preferences option"

definition preferencesSchema :: "preferences zod" where
  "preferencesSchema p v =
     (case v of
        Some (JObj kvs) \<Rightarrow>
          ap (ap (ap (ap (Inr (\<lambda>pl t c h. \<lparr>platforms = pl, tonePreference = t,
                                           contentLength = c, hashtagPreference = h\<rparr>))
            (z_optional (z_record z_boolean) (p @ [''platforms'']) (map_of kvs ''platforms'')))
            (z_optional z_string (p @ [''tonePreference'']) (map_of kvs ''tonePreference'')))
            (z_optional z_string (p @ [''contentLength'']) (map_of kvs ''contentLength'')))
            (z_optional z_string (p @ [''hashtagPreference'']) (map_of kvs ''hashtagPreference''))
      | _ \<Rightarrow> Inl [invalid_type ''object'' v p])"

definition contentSchema :: "content zod" where
  "contentSchema p v =
     (case v of
        Some (JObj kvs) \<Rightarrow>
          ap (ap (ap (ap (ap (ap (Inr (\<lambda>pt t a s g pr.
                 \<lparr>postType = pt, topic = t, audience = a, style = s, guidelines = g,
                  preferences = pr\<rparr>))
            (z_enum [''post'', ''thread'', ''poll''] (p @ [''postType'']) (map_of kvs ''postType'')))
            (z_string_min 1 ''Topic is required'' (p @ [''topic'']) (map_of kvs ''topic'')))
            (z_optional_default z_string ''general audience'' (p @ [''audience''])
               (map_of kvs ''audience'')))
            (z_optional_default z_string ''neutral and engaging'' (p @ [''style''])
               (map_of kvs ''style'')))
            (z_optional_default z_string ''none'' (p @ [''guidelines''])
               (map_of kvs ''guidelines'')))
            (z_optional preferencesSchema (p @ [''preferences'']) (map_of kvs ''preferences''))
      | _ \<Rightarrow> Inl [invalid_type ''object'' v p])"

text \<open>\<^verbatim>\<open>contentSchema.parse(req.body)\<close>: the validated input, or the issues a
  \<^verbatim>\<open>ZodError\<close> carries.\<close>

definition contentSchema_parse :: "json \<Rightarrow> issue list + content" where
  "contentSchema_parse body = contentSchema [] (Some body)"

section \<open>Prompt templates\<close>

text \<open>
  Each template is a template literal; the lines below are its lines, joined by line
  feeds. A literal starts with a line feed and ends with the indentation of its last
  line.
\<close>

definition lines_text :: "string list \<Rightarrow> string" where
  "lines_text ls = join [nl] ls"

definition str_opt :: "string option \<Rightarrow> json option" where
  "str_opt s = map_option JStr s"

definition platforms_json :: "(string \<times> bool) list option \<Rightarrow> string" where
  "platforms_json pl =
     (case pl of
        None \<Rightarrow> ''undefined''
      | Some kvs \<Rightarrow> JSON_stringify (JObj (map (\<lambda>(k, b). (k, JBool b)) kvs)))"

definition post_template :: "content \<Rightarrow> string" where
  "post_template c = lines_text
     [[],
      ''    Generate a social media post.'',
      ''    Topic: '' @ topic c,
      ''    Target Audience: '' @ audience c,
      ''    Style: '' @ style c,
      ''    Guidelines: '' @ guidelines c,
      ''    '' @ (case preferences c of
                    Some pr \<Rightarrow> lines_text
                      [''Platform Preferences: '' @ platforms_json (platforms pr),
                       ''    Tone Preference: '' @ interpolate (str_opt (tonePreference pr)),
                       ''    Content Length: '' @ interpolate (str_opt (contentLength pr)),
                       ''    Hashtag Preference: '' @ interpolate (str_opt (hashtagPreference pr))]
                  | None \<Rightarrow> []),
      ''  '']"

definition thread_template :: "content \<Rightarrow> string" where
  "thread_template c = lines_text
     [[],
      ''    Generate a multi-post thread for a Twitter-like platform.'',
      ''    Topic: '' @ topic c,
      ''    Target Audience: '' @ audience c,
      ''    Style: '' @ style c,
      ''    Guidelines: '' @ guidelines c,
      ''    '' @ (case preferences c of
                    Some pr \<Rightarrow> lines_text
                      [''Tone Preference: '' @ interpolate (str_opt (tonePreference pr)),
                       ''    Content Length: '' @ interpolate (str_opt (contentLength pr)),
                       ''    Hashtag Preference: '' @ interpolate (str_opt (hashtagPreference pr))]
                  | None \<Rightarrow> []),
      ''  '']"

definition poll_template :: "content \<Rightarrow> string" where
  "poll_template c = lines_text
     [[],
      ''    Generate an engaging social media poll.'',
      ''    Topic: '' @ topic c,
      ''    Target Audience: '' @ audience c,
      ''    Style: '' @ style c,
      ''    Guidelines: '' @ guidelines c,
      [],
      ''    Please format the response EXACTLY like this:'',
      ''    1. Poll Question'',
      ''    2. Option A'',
      ''    3. Option B'',
      ''    4. Option C'',
      ''    5. Option D'',
      ''    6. Explanation of why this poll is engaging'',
      ''  '']"

text \<open>
  \<^verbatim>\<open>promptTemplates\<close>, by its own keys. (A lookup of a key that only
  \<^verbatim>\<open>Object.prototype\<close> has is outside the model; the validator lets none through.)
\<close>

definition promptTemplates :: "string \<Rightarrow> (content \<Rightarrow> string) option" where
  "promptTemplates type =
     (if type = ''post'' then Some post_template
      else if type = ''thread'' then Some thread_template
      else if type = ''poll'' then Some poll_template
      else None)"

text \<open>
  A thrown value: a \<^verbatim>\<open>ZodError\<close> with its issues, or any other error with its
  \<^verbatim>\<open>status\<close> property (set by the upstream client on HTTP errors, absent otherwise)
  and its message.
\<close>

datatype js_error =
    ZodError "issue list"
  | Thrown "nat option" string

definition TypeError :: "string \<Rightarrow> js_error" where
  "TypeError msg = Thrown None msg"

definition generatePrompt :: "string \<Rightarrow> content \<Rightarrow> js_error + string" where
  "generatePrompt type c =
     (case promptTemplates type of
        None \<Rightarrow> Inl (Thrown None (''Invalid content type: '' @ type))
      | Some template \<Rightarrow> Inr (template c))"

section \<open>Parsing the poll text\<close>

text \<open>
  \<^verbatim>\<open>line.replace(/^[0-9]+\.\s*/, '')\<close>: the expression matches at the start of the
  line only, one or more digits, a full stop, then all the white space that follows.
  Where it matches the match is removed, elsewhere the line stays as it is.
\<close>

definition strip_marker :: "string \<Rightarrow> string" where
  "strip_marker line =
     (case dropWhile is_digit line of
        [] \<Rightarrow> line
      | c # rest \<Rightarrow>
          if takeWhile is_digit line \<noteq> [] \<and> c = CHR ''.'' then dropWhile is_space rest
          else line)"

record poll_result =
  poll_content :: string
  question :: string
  options :: "string list"

text \<open>
  Lines 335 to 343 of the poll route, from the text of the first choice to the fields
  of the result. \<^verbatim>\<open>lines[0]\<close> of an empty array is \<^verbatim>\<open>undefined\<close>, and calling
  \<^verbatim>\<open>replace\<close> on it throws a \<^verbatim>\<open>TypeError\<close>.
\<close>

definition poll_lines :: "string \<Rightarrow> string list" where
  "poll_lines content = filter (\<lambda>line. trim line \<noteq> []) (js_split nl content)"

definition parse_poll :: "string \<Rightarrow> js_error + poll_result" where
  "parse_poll raw =
     (let content = trim raw;
          lines = poll_lines content
      in case lines of
           [] \<Rightarrow> Inl (TypeError ''Cannot read properties of undefined'')
         | first # others \<Rightarrow>
             Inr \<lparr>poll_content = content,
                  question = trim (strip_marker first),
                  options = map (\<lambda>line. trim (strip_marker line)) (take 3 (drop 1 lines))\<rparr>)"

section \<open>The server: cache, upstream client and routes\<close>

text \<open>
  The Redis client holds serialised results under string keys. An entry is modelled by
  the document it was written from and its time to live in seconds:
  \<^verbatim>\<open>JSON.parse(JSON.stringify(result))\<close> gives back the document that
  \<^verbatim>\<open>res.json(result)\<close> sends. Expiry needs a clock and is not modelled.
\<close>

record cache_entry =
  ttl :: nat
  cached :: json

type_synonym cache = "string \<Rightarrow> cache_entry option"

text \<open>
  The upstream client. A chat request is its model and its two messages (the sampling
  parameters, read from the environment as floating point numbers, are left out); a
  completion is the message contents of its choices (\<open>None\<close> for \<^verbatim>\<open>null\<close>) and
  its usage block. An image response is its \<^verbatim>\<open>data\<close> array, if any, each element
  with its \<^verbatim>\<open>url\<close>, if any.
\<close>

record chat_request =
  model :: string
  system_content :: string
  user_content :: string

record completion =
  choices :: "string option list"
  usage :: "json option"

record image_request =
  image_model :: string
  image_prompt :: json
  image_n :: nat
  image_size :: string
  image_quality :: string
  image_response_format :: string

record image_response =
  data :: "string option list option"

text \<open>
  What a request finds around it: the API key of the environment, the Redis client
  (\<open>None\<close> when \<^verbatim>\<open>REDIS_URL\<close> is not set) with the errors its two commands
  reject with, if any, and the answers of the upstream client.
\<close>

record env =
  OPENAI_API_KEY :: "string option"
  redis :: "cache option"
  redis_get_error :: "js_error option"
  redis_setex_error :: "js_error option"
  chat_create :: "chat_request \<Rightarrow> js_error + completion"
  images_generate :: "image_request \<Rightarrow> js_error + image_response"

text \<open>The effects of a request, in the order they happen.\<close>

datatype event =
    CacheGet string
  | Validate
  | ChatCall chat_request
  | ImageCall image_request
  | CacheSet string

record response =
  status :: nat
  body :: json

record outcome =
  reply :: response
  cache_after :: "cache option"
  events :: "event list"

text \<open>\<^verbatim>\<open>!process.env.OPENAI_API_KEY\<close>: an unset and an empty variable are both falsy.\<close>

definition api_key_missing :: "env \<Rightarrow> bool" where
  "api_key_missing e = (case OPENAI_API_KEY e of None \<Rightarrow> True | Some k \<Rightarrow> k = [])"

text \<open>
  \<^verbatim>\<open>checkCache\<close>: the events of the lookup, and the response when it answers; with
  \<open>None\<close> the middleware calls \<^verbatim>\<open>next()\<close>.
\<close>

definition checkCache :: "env \<Rightarrow> json \<Rightarrow> event list \<times> response option" where
  "checkCache e req_body =
     (case redis e of
        None \<Rightarrow> ([], None)
      | Some store \<Rightarrow>
          (let cacheKey = ''content:'' @ JSON_stringify req_body in
           case redis_get_error e of
             Some err \<Rightarrow> ([CacheGet cacheKey], None)
           | None \<Rightarrow>
               (case store cacheKey of
                  Some entry \<Rightarrow> ([CacheGet cacheKey], Some \<lparr>status = 200, body = cached entry\<rparr>)
                | None \<Rightarrow> ([CacheGet cacheKey], None))))"

definition issue_json :: "issue \<Rightarrow> json" where
  "issue_json i =
     JObj [(''code'', JStr (code i)), (''path'', JArr (map JStr (path i))),
           (''message'', JStr (message i))]"

definition errorHandler :: "js_error \<Rightarrow> response" where
  "errorHandler err =
     (case err of
        ZodError issues \<Rightarrow>
          \<lparr>status = 400,
           body = JObj [(''success'', JBool False), (''error'', JStr ''Invalid input''),
                        (''details'', JArr (map issue_json issues))]\<rparr>
      | Thrown st msg \<Rightarrow>
          (let statusCode = (case st of None \<Rightarrow> 500 | Some s \<Rightarrow> if s = 0 then 500 else s);
               message = (if statusCode = 500 then ''Internal server error'' else msg)
           in \<lparr>status = statusCode,
               body = JObj [(''success'', JBool False), (''error'', JStr message)]\<rparr>))"

text \<open>
  The end of each route's \<^verbatim>\<open>try\<close> block: the result is written to the cache when
  there is one, for one hour, and returned. A rejected \<^verbatim>\<open>setex\<close> is thrown.
\<close>

definition cache_result ::
  "env \<Rightarrow> string \<Rightarrow> json \<Rightarrow> event list \<Rightarrow> event list \<times> cache option \<times> (js_error + json)" where
  "cache_result e cacheKey result evs =
     (case redis e of
        None \<Rightarrow> (evs, None, Inr result)
      | Some store \<Rightarrow>
          (case redis_setex_error e of
             Some err \<Rightarrow> (evs @ [CacheSet cacheKey], Some store, Inl err)
           | None \<Rightarrow>
               (evs @ [CacheSet cacheKey],
                Some (store(cacheKey \<mapsto> \<lparr>ttl = 3600, cached = result\<rparr>)),
                Inr result)))"

definition null_or_string :: "string option \<Rightarrow> json" where
  "null_or_string s = (case s of None \<Rightarrow> JNull | Some t \<Rightarrow> JStr t)"

definition optional_member :: "string \<Rightarrow> json option \<Rightarrow> (string \<times> json) list" where
  "optional_member k v = (case v of None \<Rightarrow> [] | Some x \<Rightarrow> [(k, x)])"

definition post_system :: string where
  "post_system = lines_text
     [''You are an AI-powered social media content generation assistant for Intellisync Solutions, specializing in creating engaging, platform-optimized content across multiple social media channels.'',
      [],
      ''Core Objectives:'',
      ''- Generate high-quality, contextually relevant social media content'',
      ''- Adapt tone and style based on user-specified preferences'',
      ''- Ensure content is platform-specific and meets each platform'' @ [CHR 0x27] @
        ''s best practices'']"

text \<open>The \<^verbatim>\<open>try\<close> block of \<^verbatim>\<open>/api/generatePost\<close>.\<close>

definition generatePost_handler ::
  "env \<Rightarrow> json \<Rightarrow> event list \<times> cache option \<times> (js_error + json)" where
  "generatePost_handler e req_body =
     (case contentSchema_parse req_body of
        Inl issues \<Rightarrow> ([Validate], redis e, Inl (ZodError issues))
      | Inr validatedInput \<Rightarrow>
          if api_key_missing e
          then ([Validate], redis e, Inl (Thrown None ''OpenAI API key is not configured''))
          else
            (case generatePrompt (postType validatedInput) validatedInput of
               Inl err \<Rightarrow> ([Validate], redis e, Inl err)
             | Inr prompt \<Rightarrow>
                 (let request = \<lparr>model = ''gpt-4o-mini'', system_content = post_system,
                                 user_content = prompt\<rparr>
                  in case chat_create e request of
                       Inl err \<Rightarrow> ([Validate, ChatCall request], redis e, Inl err)
                     | Inr completion \<Rightarrow>
                         (case choices completion of
                            [] \<Rightarrow> ([Validate, ChatCall request], redis e,
                                   Inl (TypeError ''Cannot read properties of undefined''))
                          | choice # _ \<Rightarrow>
                              cache_result e (''content:'' @ JSON_stringify req_body)
                                (JObj ([(''success'', JBool True),
                                        (''content'', null_or_string choice)] @
                                       optional_member ''usage'' (usage completion)))
                                [Validate, ChatCall request]))))"

text \<open>The \<^verbatim>\<open>try\<close> block of \<^verbatim>\<open>/api/generateImage\<close>.\<close>

definition first_url :: "image_response \<Rightarrow> string option" where
  "first_url r =
     (case data r of
        None \<Rightarrow> None
      | Some [] \<Rightarrow> None
      | Some (None # _) \<Rightarrow> None
      | Some (Some url # _) \<Rightarrow> if url = [] then None else Some url)"

definition generateImage_handler ::
  "env \<Rightarrow> json \<Rightarrow> event list \<times> cache option \<times> (js_error + json)" where
  "generateImage_handler e req_body =
     (case get_prop req_body ''prompt'' of
        None \<Rightarrow> ([Validate], redis e, Inl (Thrown None ''Prompt is required''))
      | Some prompt \<Rightarrow>
          if \<not> truthy (Some prompt)
          then ([Validate], redis e, Inl (Thrown None ''Prompt is required''))
          else if api_key_missing e
          then ([Validate], redis e, Inl (Thrown None ''OpenAI API key is not configured''))
          else
            (let request = \<lparr>image_model = ''dall-e-3'', image_prompt = prompt, image_n = 1,
                            image_size = ''1024x1024'', image_quality = ''standard'',
                            image_response_format = ''url''\<rparr>
             in case images_generate e request of
                  Inl err \<Rightarrow> ([Validate, ImageCall request], redis e, Inl err)
                | Inr resp \<Rightarrow>
                    (case first_url resp of
                       None \<Rightarrow> ([Validate, ImageCall request], redis e,
                                Inl (Thrown None ''Invalid response from image generation service''))
                     | Some url \<Rightarrow>
                         cache_result e (''image:'' @ to_string prompt)
                           (JObj [(''success'', JBool True), (''imageUrl'', JStr url)])
                           [Validate, ImageCall request])))"

text \<open>The \<^verbatim>\<open>try\<close> block of \<^verbatim>\<open>/api/generate-poll\<close>.\<close>

definition poll_system :: string where
  "poll_system = ''You are an AI-powered poll generation assistant for social media. Create engaging, interactive polls that encourage audience participation and generate meaningful discussions. Focus on clarity, relevance, and engagement potential.''"

definition poll_prompt :: "json \<Rightarrow> string" where
  "poll_prompt req_body = lines_text
     [[],
      ''      Generate an engaging social media poll.'',
      ''      Topic: '' @ interpolate (get_prop req_body ''topic''),
      ''      Target Audience: '' @ interpolate (get_prop req_body ''audience''),
      ''      Style: '' @ interpolate (get_prop req_body ''style''),
      ''      Guidelines: '' @ interpolate (get_prop req_body ''guidelines''),
      [],
      ''      Please format the response EXACTLY like this:'',
      ''      1. Poll Question'',
      ''      2. Option A'',
      ''      3. Option B'',
      ''      4. Option C'',
      ''      5. Option D'',
      ''      6. Explanation of why this poll is engaging'',
      ''    '']"

definition poll_json :: "poll_result \<Rightarrow> json" where
  "poll_json r =
     JObj [(''success'', JBool True), (''content'', JStr (poll_content r)),
           (''question'', JStr (question r)), (''options'', JArr (map JStr (options r)))]"

definition generatePoll_handler ::
  "env \<Rightarrow> json \<Rightarrow> event list \<times> cache option \<times> (js_error + json)" where
  "generatePoll_handler e req_body =
     (if \<not> truthy (get_prop req_body ''topic'')
      then ([Validate], redis e, Inl (Thrown None ''Poll topic is required''))
      else if api_key_missing e
      then ([Validate], redis e, Inl (Thrown None ''OpenAI API key is not configured''))
      else
        (let request = \<lparr>model = ''gpt-4o-mini'', system_content = poll_system,
                        user_content = poll_prompt req_body\<rparr>
         in case chat_create e request of
              Inl err \<Rightarrow> ([Validate, ChatCall request], redis e, Inl err)
            | Inr completion \<Rightarrow>
                (case choices completion of
                   [] \<Rightarrow> ([Validate, ChatCall request], redis e,
                          Inl (TypeError ''Cannot read properties of undefined''))
                 | None # _ \<Rightarrow> ([Validate, ChatCall request], redis e,
                                Inl (TypeError ''Cannot read properties of null''))
                 | Some raw # _ \<Rightarrow>
                     (case parse_poll raw of
                        Inl err \<Rightarrow> ([Validate, ChatCall request], redis e, Inl err)
                      | Inr result \<Rightarrow>
                          cache_result e (''poll:'' @ JSON_stringify req_body)
                            (poll_json result) [Validate, ChatCall request]))))"

text \<open>
  A route: \<^verbatim>\<open>app.post(path, checkCache, handler)\<close> followed by
  \<^verbatim>\<open>app.use(errorHandler)\<close>. The middleware runs first; the handler runs when the
  middleware calls \<^verbatim>\<open>next()\<close>; what the handler throws goes to the error handler.
\<close>

definition route ::
  "(env \<Rightarrow> json \<Rightarrow> event list \<times> cache option \<times> (js_error + json)) \<Rightarrow> env \<Rightarrow> json \<Rightarrow> outcome" where
  "route handler e req_body =
     (case checkCache e req_body of
        (evs, Some resp) \<Rightarrow> \<lparr>reply = resp, cache_after = redis e, events = evs\<rparr>
      | (evs, None) \<Rightarrow>
          (case handler e req_body of
             (evs', store', Inl err) \<Rightarrow>
               \<lparr>reply = errorHandler err, cache_after = store', events = evs @ evs'\<rparr>
           | (evs', store', Inr result) \<Rightarrow>
               \<lparr>reply = \<lparr>status = 200, body = result\<rparr>, cache_after = store',
                events = evs @ evs'\<rparr>))"

definition generatePost :: "env \<Rightarrow> json \<Rightarrow> outcome" where
  "generatePost = route generatePost_handler"

definition generateImage :: "env \<Rightarrow> json \<Rightarrow> outcome" where
  "generateImage = route generateImage_handler"

definition generatePoll :: "env \<Rightarrow> json \<Rightarrow> outcome" where
  "generatePoll = route generatePoll_handler"

section \<open>Notions used in the statements\<close>

text \<open>Trimming at the end only.\<close>

definition rtrim :: "string \<Rightarrow> string" where
  "rtrim s = rev (dropWhile is_space (rev s))"

text \<open>
  A numbered line is given by its number and the text after the full stop: the number
  is one or more digits, and the text has no line feed in it.
\<close>

definition numbered :: "string \<times> string \<Rightarrow> bool" where
  "numbered p = (fst p \<noteq> [] \<and> (\<forall>c \<in> set (fst p). is_digit c) \<and> nl \<notin> set (snd p))"

definition numbered_line :: "string \<times> string \<Rightarrow> string" where
  "numbered_line p = fst p @ CHR ''.'' # snd p"

text \<open>
  An environment with the API key set, no Redis errors and an upstream client that
  answers every chat request with the given text and every image request with the
  given URL.
\<close>

definition answering :: "cache option \<Rightarrow> string \<Rightarrow> env" where
  "answering store raw =
     \<lparr>OPENAI_API_KEY = Some ''sk-test'', redis = store, redis_get_error = None,
      redis_setex_error = None,
      chat_create = (\<lambda>req. Inr \<lparr>choices = [Some raw], usage = None\<rparr>),
      images_generate = (\<lambda>req. Inr \<lparr>data = Some [Some raw]\<rparr>)\<rparr>"

text \<open>
  The constraints of the request's fields, as the data model states them: the kind is
  one of the three enumerated values, the topic is a non-empty text, the other texts
  are optional, the preferences are an optional object of a map of flags and three
  optional texts.
\<close>

definition kind_ok :: "json option \<Rightarrow> bool" where
  "kind_ok v = (case v of Some (JStr s) \<Rightarrow> s \<in> {''post'', ''thread'', ''poll''} | _ \<Rightarrow> False)"

definition topic_ok :: "json option \<Rightarrow> bool" where
  "topic_ok v = (case v of Some (JStr s) \<Rightarrow> s \<noteq> [] | _ \<Rightarrow> False)"

definition optional_text_ok :: "json option \<Rightarrow> bool" where
  "optional_text_ok v = (case v of None \<Rightarrow> True | Some (JStr s) \<Rightarrow> True | _ \<Rightarrow> False)"

definition is_flag :: "string \<times> json \<Rightarrow> bool" where
  "is_flag kv = (case snd kv of JBool b \<Rightarrow> True | _ \<Rightarrow> False)"

definition platforms_ok :: "json option \<Rightarrow> bool" where
  "platforms_ok v =
     (case v of None \<Rightarrow> True | Some (JObj kvs) \<Rightarrow> list_all is_flag kvs | _ \<Rightarrow> False)"

definition preferences_ok :: "json option \<Rightarrow> bool" where
  "preferences_ok v =
     (case v of
        None \<Rightarrow> True
      | Some (JObj kvs) \<Rightarrow>
          platforms_ok (map_of kvs ''platforms'') \<and>
          optional_text_ok (map_of kvs ''tonePreference'') \<and>
          optional_text_ok (map_of kvs ''contentLength'') \<and>
          optional_text_ok (map_of kvs ''hashtagPreference'')
      | _ \<Rightarrow> False)"

text \<open>The fields of a request object whose constraint is violated, in schema order.\<close>

definition violated_fields :: "(string \<times> json) list \<Rightarrow> string list" where
  "violated_fields kvs =
     (if kind_ok (map_of kvs ''postType'') then [] else [''postType'']) @
     (if topic_ok (map_of kvs ''topic'') then [] else [''topic'']) @
     (if optional_text_ok (map_of kvs ''audience'') then [] else [''audience'']) @
     (if optional_text_ok (map_of kvs ''style'') then [] else [''style'']) @
     (if optional_text_ok (map_of kvs ''guidelines'') then [] else [''guidelines'']) @
     (if preferences_ok (map_of kvs ''preferences'') then [] else [''preferences''])"




text \<open>
  An upstream failure: the call rejects (a timeout, an HTTP error), or its payload is
  malformed. A chat completion is malformed when it has no choice or when its first
  choice has no content; an image response is malformed when it has no data, no first
  element or no URL there.
\<close>

definition chat_failed :: "env \<Rightarrow> chat_request \<Rightarrow> bool" where
  "chat_failed e req =
     (case chat_create e req of
        Inl err \<Rightarrow> True
      | Inr c \<Rightarrow> (case choices c of [] \<Rightarrow> True | choice # others \<Rightarrow> choice = None))"

text \<open>The malformed completion that has a first choice, without content.\<close>

definition null_content :: "env \<Rightarrow> chat_request \<Rightarrow> bool" where
  "null_content e req =
     (case chat_create e req of
        Inl err \<Rightarrow> False
      | Inr c \<Rightarrow> (case choices c of [] \<Rightarrow> False | choice # others \<Rightarrow> choice = None))"

definition image_failed :: "env \<Rightarrow> image_request \<Rightarrow> bool" where
  "image_failed e req =
     (case images_generate e req of Inl err \<Rightarrow> True | Inr resp \<Rightarrow> first_url resp = None)"

text \<open>
  A failed request that left the cache alone: the body says \<^verbatim>\<open>success: false\<close> and
  carries an error message, the cache is as before, and nothing was written to it.
\<close>

definition failure_uncached :: "env \<Rightarrow> outcome \<Rightarrow> bool" where
  "failure_uncached e out =
     (get_prop (body (reply out)) ''success'' = Some (JBool False) \<and>
      (\<exists>msg. get_prop (body (reply out)) ''error'' = Some (JStr msg)) \<and>
      cache_after out = redis e \<and>
      \<not> (\<exists>k. CacheSet k \<in> set (events out)))"

text \<open>Kinds of events, and the number of upstream calls among the events of a request.\<close>

fun is_upstream :: "event \<Rightarrow> bool" where
  "is_upstream (ChatCall req) = True"
| "is_upstream (ImageCall req) = True"
| "is_upstream ev = False"

fun is_lookup :: "event \<Rightarrow> bool" where
  "is_lookup (CacheGet k) = True"
| "is_lookup ev = False"

text \<open>
  \<open>only_after a P evs\<close>: reading the events in order, no event with property \<open>P\<close>
  comes before the first occurrence of \<open>a\<close>.
\<close>

fun only_after :: "event \<Rightarrow> (event \<Rightarrow> bool) \<Rightarrow> event list \<Rightarrow> bool" where
  "only_after a P [] = True"
| "only_after a P (x # xs) = (x = a \<or> (\<not> P x \<and> only_after a P xs))"

definition upstream_calls :: "event list \<Rightarrow> nat" where
  "upstream_calls evs = length (filter is_upstream evs)"

text \<open>An environment whose upstream calls all reject with the given error.\<close>

definition failing :: "cache option \<Rightarrow> js_error \<Rightarrow> env" where
  "failing store err =
     \<lparr>OPENAI_API_KEY = Some ''sk-test'', redis = store, redis_get_error = None,
      redis_setex_error = None,
      chat_create = (\<lambda>req. Inl err),
      images_generate = (\<lambda>req. Inl err)\<rparr>"

text \<open>The request of the specification's scenarios, and what the validator makes of it.\<close>

definition remote_work :: json where
  "remote_work = JObj [(''postType'', JStr ''poll''), (''topic'', JStr ''remote work'')]"

definition remote_work_input :: content where
  "remote_work_input =
     \<lparr>postType = ''poll'', topic = ''remote work'', audience = ''general audience'',
      style = ''neutral and engaging'', guidelines = ''none'', preferences = None\<rparr>"

text \<open>The response to an error without a status.\<close>

definition internal_server_error :: response where
  "internal_server_error =
     \<lparr>status = 500,
      body = JObj [(''success'', JBool False), (''error'', JStr ''Internal server error'')]\<rparr>"

text \<open>An image request, an upstream timeout, and the requests the routes send upstream.\<close>

definition a_cat :: json where
  "a_cat = JObj [(''prompt'', JStr ''a cat'')]"

definition timed_out :: js_error where
  "timed_out = Thrown None ''Request timed out.''"

definition post_request :: "string \<Rightarrow> chat_request" where
  "post_request prompt =
     \<lparr>model = ''gpt-4o-mini'', system_content = post_system, user_content = prompt\<rparr>"

definition poll_request :: "json \<Rightarrow> chat_request" where
  "poll_request b =
     \<lparr>model = ''gpt-4o-mini'', system_content = poll_system, user_content = poll_prompt b\<rparr>"

definition image_request_of :: "json \<Rightarrow> image_request" where
  "image_request_of prompt =
     \<lparr>image_model = ''dall-e-3'', image_prompt = prompt, image_n = 1,
      image_size = ''1024x1024'', image_quality = ''standard'',
      image_response_format = ''url''\<rparr>"

text \<open>
  An environment without the API key, and a cache that holds a result under the key the
  lookup computes for the scenario's request.
\<close>

definition keyless :: "cache option \<Rightarrow> env" where
  "keyless store = (answering store [])\<lparr>OPENAI_API_KEY := None\<rparr>"

definition cached_hello :: cache where
  "cached_hello =
     [''content:'' @ JSON_stringify remote_work \<mapsto>
        \<lparr>ttl = 3600, cached = JObj [(''success'', JBool True), (''content'', JStr ''Hello'')]\<rparr>]"

text \<open>The error of a Redis command while the connection is down.\<close>

definition outage :: js_error where
  "outage = Thrown None ''Connection is closed.''"

text \<open>
  An environment whose Redis server is down, so that both commands of the client
  reject, while the upstream client answers as in \<open>answering\<close>.
\<close>

definition backend_down :: "cache \<Rightarrow> string \<Rightarrow> env" where
  "backend_down store raw =
     (answering (Some store) raw)
       \<lparr>redis_get_error := Some outage, redis_setex_error := Some outage\<rparr>"

text \<open>
  An environment whose upstream client answers every chat request with one choice
  without content and every image request with one element without URL.
\<close>

definition unreadable :: "cache option \<Rightarrow> env" where
  "unreadable store =
     \<lparr>OPENAI_API_KEY = Some ''sk-test'', redis = store, redis_get_error = None,
      redis_setex_error = None,
      chat_create = (\<lambda>req. Inr \<lparr>choices = [None], usage = None\<rparr>),
      images_generate = (\<lambda>req. Inr \<lparr>data = Some [None]\<rparr>)\<rparr>"

text \<open>The upstream answer of the specification's poll scenario, and its parsed result.\<close>

definition poll_text :: string where
  "poll_text = lines_text [''1. Is remote work here to stay?'', ''2. Yes'', ''3. No'',
                           ''4. Depends'', ''5. Sparks workplace debate'']"

definition parsed_poll :: json where
  "parsed_poll = poll_json \<lparr>poll_content = poll_text, question = ''Is remote work here to stay?'',
          options = [''Yes'', ''No'', ''Depends'']\<rparr>"

section \<open>Properties of the poll parser\<close>

lemma rtrim_Cons: "\<not> is_space a \<Longrightarrow> rtrim (a # xs) = a # rtrim xs"
  by (simp add: rtrim_def dropWhile_append)

lemma rtrim_append: "rtrim ys \<noteq> [] \<Longrightarrow> rtrim (xs @ ys) = xs @ rtrim ys"
  by (auto simp add: rtrim_def dropWhile_append)

lemma trim_Cons: "\<not> is_space a \<Longrightarrow> trim (a # xs) = a # rtrim xs"
  by (simp add: trim_def rtrim_def dropWhile_append)

lemma trim_eq_rtrim: "\<not> is_space a \<Longrightarrow> trim (a # xs) = rtrim (a # xs)"
  by (simp add: trim_Cons rtrim_Cons)

lemma set_rtrim: "set (rtrim l) \<subseteq> set l"
  using set_dropWhileD [of _ is_space "rev l"] by (auto simp: rtrim_def)

lemma trim_dropWhile: "trim (dropWhile is_space r) = trim r"
  by (simp add: trim_def)

lemma js_split_no_sep: "sep \<notin> set l \<Longrightarrow> js_split sep l = [l]"
  by (induction l) auto

lemma js_split_line: "sep \<notin> set l \<Longrightarrow> js_split sep (l @ sep # rest) = l # js_split sep rest"
  by (induction l) auto

lemma js_split_lines:
  "\<forall>l \<in> set pre. sep \<notin> set l \<Longrightarrow> sep \<notin> set lst \<Longrightarrow>
   js_split sep (concat (map (\<lambda>l. l @ [sep]) pre) @ lst) = pre @ [lst]"
  by (induction pre) (simp_all add: js_split_no_sep js_split_line)

lemma join_snoc: "join sep (xs @ [l]) = concat (map (\<lambda>x. x @ sep) xs) @ l"
proof (induction xs)
  case Nil
  show ?case by simp
next
  case (Cons x xs)
  then show ?case by (cases xs) auto
qed

lemma is_digit_not_space: "is_digit c \<Longrightarrow> \<not> is_space c"
  by (auto simp: is_digit_def is_space_def)

lemma dot_not_digit: "\<not> is_digit CHR ''.''"
  by (simp add: is_digit_def)

lemma strip_marker_numbered:
  "ds \<noteq> [] \<Longrightarrow> \<forall>c \<in> set ds. is_digit c \<Longrightarrow>
   strip_marker (ds @ CHR ''.'' # r) = dropWhile is_space r"
  by (simp add: strip_marker_def dot_not_digit dropWhile_append takeWhile_append)

lemma numbered_line_facts:
  assumes "numbered p"
  shows "nl \<notin> set (numbered_line p)"
    and "\<exists>d r. numbered_line p = d # r \<and> \<not> is_space d"
    and "trim (strip_marker (numbered_line p)) = trim (snd p)"
proof -
  from assms obtain d ds where ds: "fst p = d # ds" "is_digit d"
    by (cases "fst p") (auto simp: numbered_def)
  show "nl \<notin> set (numbered_line p)"
    using assms by (auto simp: numbered_def numbered_line_def nl_def is_digit_def)
  show "\<exists>d r. numbered_line p = d # r \<and> \<not> is_space d"
    using ds by (simp add: numbered_line_def is_digit_not_space)
  show "trim (strip_marker (numbered_line p)) = trim (snd p)"
    using assms by (simp add: numbered_def numbered_line_def strip_marker_numbered trim_dropWhile)
qed

lemma numbered_line_nonblank: "numbered p \<Longrightarrow> trim (numbered_line p) \<noteq> []"
  using numbered_line_facts(2) [of p] by (auto simp: trim_Cons)

text \<open>
  The lines the parser works on, for a text of numbered lines: the lines themselves,
  the last one trimmed at its end.
\<close>

lemma poll_lines_numbered:
  assumes pre: "\<forall>p \<in> set ps. numbered p" and lst: "numbered q"
  shows "poll_lines (trim (lines_text (map numbered_line (ps @ [q])))) =
         map numbered_line ps @ [rtrim (numbered_line q)]"
proof -
  let ?pre = "map numbered_line ps"
  let ?text = "concat (map (\<lambda>l. l @ [nl]) ?pre) @ numbered_line q"
  obtain d r where q: "numbered_line q = d # r" "\<not> is_space d"
    using numbered_line_facts(2) [OF lst] by blast
  have last_ne: "rtrim (numbered_line q) \<noteq> []"
    using q by (simp add: rtrim_Cons)
  have joined: "lines_text (map numbered_line (ps @ [q])) = ?text"
    by (simp add: lines_text_def join_snoc)
  have "\<exists>a xs. ?text = a # xs \<and> \<not> is_space a"
  proof (cases ps)
    case Nil
    then show ?thesis using q by simp
  next
    case (Cons p ps')
    then have "numbered p" using pre by simp
    from numbered_line_facts(2) [OF this] Cons show ?thesis by auto
  qed
  then have "trim ?text = rtrim ?text"
    by (metis trim_eq_rtrim)
  also have "rtrim ?text = concat (map (\<lambda>l. l @ [nl]) ?pre) @ rtrim (numbered_line q)"
    using last_ne by (rule rtrim_append)
  finally have trimmed:
    "trim ?text = concat (map (\<lambda>l. l @ [nl]) ?pre) @ rtrim (numbered_line q)" .
  have no_nl: "\<forall>l \<in> set ?pre. nl \<notin> set l"
    using pre numbered_line_facts(1) by auto
  have no_nl_last: "nl \<notin> set (rtrim (numbered_line q))"
    using numbered_line_facts(1) [OF lst] set_rtrim by blast
  have pieces: "js_split nl (trim ?text) = ?pre @ [rtrim (numbered_line q)]"
    unfolding trimmed using no_nl no_nl_last by (rule js_split_lines)
  have keep_pre: "\<forall>l \<in> set ?pre. trim l \<noteq> []"
    using pre numbered_line_nonblank by auto
  have keep_last: "trim (rtrim (numbered_line q)) \<noteq> []"
    using q by (simp add: rtrim_Cons trim_Cons)
  show ?thesis
    unfolding joined poll_lines_def pieces using keep_pre keep_last by simp
qed

text \<open>
  With at least one non-blank line the parser returns a result: the first line gives
  the question, the next lines that exist, three at most, give the options.
\<close>

lemma parse_poll_degrades:
  "poll_lines (trim raw) = first # others \<Longrightarrow>
   parse_poll raw =
     Inr \<lparr>poll_content = trim raw, question = trim (strip_marker first),
          options = map (\<lambda>line. trim (strip_marker line)) (take 3 others)\<rparr>"
  by (simp add: parse_poll_def)

lemma parse_poll_throws_iff:
  "isl (parse_poll raw) = (poll_lines (trim raw) = [])"
  by (cases "poll_lines (trim raw)") (simp_all add: parse_poll_def)

text \<open>
  C5. A response of five or more numbered lines (the six lines the prompt asks for
  among them) parses to the text of its first line as the question and the texts of
  its second to fourth lines as the options, in order, each without its marker and
  trimmed.
\<close>

theorem parse_poll_well_formed:
  assumes len: "5 \<le> length ps"
    and wf: "\<forall>p \<in> set ps. numbered p"
  shows "parse_poll (lines_text (map numbered_line ps)) =
         Inr \<lparr>poll_content = trim (lines_text (map numbered_line ps)),
              question = trim (snd (ps ! 0)),
              options = [trim (snd (ps ! 1)), trim (snd (ps ! 2)), trim (snd (ps ! 3))]\<rparr>"
proof -
  from len obtain p0 p1 p2 p3 rest q where ps: "ps = p0 # p1 # p2 # p3 # rest @ [q]"
  proof -
    from len obtain p0 p1 p2 p3 p4 tl where "ps = p0 # p1 # p2 # p3 # p4 # tl"
      by (auto simp: numeral_eq_Suc Suc_le_length_iff)
    moreover obtain rest q where "p4 # tl = rest @ [q]"
      by (metis list.distinct(1) rev_exhaust)
    ultimately show ?thesis using that by simp
  qed
  have lines: "poll_lines (trim (lines_text (map numbered_line ps))) =
      numbered_line p0 # numbered_line p1 # numbered_line p2 # numbered_line p3 #
      map numbered_line rest @ [rtrim (numbered_line q)]"
    using poll_lines_numbered [of "p0 # p1 # p2 # p3 # rest" q] wf by (simp add: ps)
  have strip: "trim (strip_marker (numbered_line p0)) = trim (snd p0)"
      "trim (strip_marker (numbered_line p1)) = trim (snd p1)"
      "trim (strip_marker (numbered_line p2)) = trim (snd p2)"
      "trim (strip_marker (numbered_line p3)) = trim (snd p3)"
    using wf by (simp_all add: ps numbered_line_facts(3))
  show ?thesis
    unfolding parse_poll_def Let_def lines by (simp add: strip) (simp add: ps)
qed

text \<open>The scenario of the specification, through the theorem.\<close>

theorem parse_poll_well_formed_witness:
  "5 \<le> length [(''1'', '' Is remote work here to stay?''), (''2'', '' Yes''), (''3'', '' No''),
                 (''4'', '' Depends''), (''5'', '' Sparks workplace debate'')]
   \<and> numbered (''1'', '' Is remote work here to stay?'') \<and> numbered (''2'', '' Yes'')
   \<and> numbered (''3'', '' No'') \<and> numbered (''4'', '' Depends'')
   \<and> numbered (''5'', '' Sparks workplace debate'')
   \<and> parse_poll (lines_text [''1. Is remote work here to stay?'', ''2. Yes'', ''3. No'',
                              ''4. Depends'', ''5. Sparks workplace debate'']) =
       Inr \<lparr>poll_content = lines_text [''1. Is remote work here to stay?'', ''2. Yes'',
                              ''3. No'', ''4. Depends'', ''5. Sparks workplace debate''],
            question = ''Is remote work here to stay?'',
            options = [''Yes'', ''No'', ''Depends'']\<rparr>"
  using parse_poll_well_formed
    [of "[(''1'', '' Is remote work here to stay?''), (''2'', '' Yes''), (''3'', '' No''),
          (''4'', '' Depends''), (''5'', '' Sparks workplace debate'')]"]
  by (simp add: numbered_def numbered_line_def is_digit_def nl_def lines_text_def trim_def
      is_space_def)

section \<open>Properties of the validator\<close>


lemma isl_ap: "isl (ap f x) = (isl f \<or> isl x)"
  by (cases f; cases x) simp_all




lemma isl_z_string: "isl (z_string p v) = (\<forall>s. v \<noteq> Some (JStr s))"
  by (simp add: z_string_def split: option.splits json.splits)



lemma isl_z_enum: "isl (z_enum [''post'', ''thread'', ''poll''] p v) = (\<not> kind_ok v)"
  by (simp add: z_enum_def kind_ok_def split: option.splits json.splits)


lemma isl_z_string_min: "isl (z_string_min (Suc 0) msg p v) = (\<not> topic_ok v)"
  by (auto simp add: z_string_min_def z_string_def topic_ok_def split: option.splits json.splits)


lemma isl_z_optional: "isl (z_optional schema p v) = (v \<noteq> None \<and> isl (schema p v))"
  by (simp add: z_optional_def split: option.splits sum.splits)


lemma isl_z_optional_default:
  "isl (z_optional_default z_string d p v) = (\<not> optional_text_ok v)"
  by (simp add: z_optional_default_def z_string_def optional_text_ok_def
      split: option.splits json.splits)

lemma isl_optional_string: "isl (z_optional z_string p v) = (\<not> optional_text_ok v)"
  by (simp add: z_optional_def z_string_def optional_text_ok_def
      split: option.splits json.splits)


lemma isl_z_record_entries:
  "isl (z_record_entries z_boolean p kvs) = (\<not> list_all is_flag kvs)"
  by (induction kvs) (auto simp: isl_ap is_flag_def z_boolean_def split: json.splits)


lemma isl_platforms: "isl (z_optional (z_record z_boolean) p v) = (\<not> platforms_ok v)"
  by (simp add: isl_z_optional z_record_def platforms_ok_def isl_z_record_entries
      split: option.splits json.splits)




lemma isl_preferencesSchema:
  "isl (preferencesSchema p (Some (JObj kvs))) = (\<not> preferences_ok (Some (JObj kvs)))"
  by (auto simp add: preferencesSchema_def preferences_ok_def isl_ap isl_platforms
      isl_optional_string)

lemma isl_preferences: "isl (z_optional preferencesSchema p v) = (\<not> preferences_ok v)"
proof (cases "\<exists>kvs. v = Some (JObj kvs)")
  case True
  then show ?thesis
    using isl_preferencesSchema by (auto simp: isl_z_optional)
next
  case False
  then show ?thesis
    by (simp add: isl_z_optional preferencesSchema_def preferences_ok_def
        split: option.splits json.splits)
qed


lemma contentSchema_isl:
  "isl (contentSchema [] (Some (JObj kvs))) = (violated_fields kvs \<noteq> [])"
  by (simp add: contentSchema_def isl_ap isl_z_enum isl_z_string_min isl_z_optional_default
      isl_preferences violated_fields_def)



lemma ap_Inr: "(ap f x = Inr y) = (\<exists>g a. f = Inr g \<and> x = Inr a \<and> y = g a)"
  by (cases f; cases x) auto

lemma z_enum_Inr: "(z_enum vs p v = Inr s) = (v = Some (JStr s) \<and> s \<in> set vs)"
  by (auto simp: z_enum_def split: option.splits json.splits)

lemma z_string_min_Inr:
  "(z_string_min (Suc 0) msg p v = Inr s) = (v = Some (JStr s) \<and> s \<noteq> [])"
  by (auto simp: z_string_min_def z_string_def split: option.splits json.splits)

lemma contentSchema_parse_object:
  "contentSchema_parse b = Inr c \<Longrightarrow> \<exists>kvs. b = JObj kvs"
  by (cases b) (simp_all add: contentSchema_parse_def contentSchema_def)

lemma contentSchema_parse_Inr:
  assumes "contentSchema_parse b = Inr c"
  shows "get_prop b ''postType'' = Some (JStr (postType c)) \<and>
         postType c \<in> {''post'', ''thread'', ''poll''} \<and>
         get_prop b ''topic'' = Some (JStr (topic c)) \<and> topic c \<noteq> []"
proof -
  from assms obtain kvs where b: "b = JObj kvs"
    using contentSchema_parse_object by blast
  from assms show ?thesis
    unfolding b contentSchema_parse_def contentSchema_def
    by (auto simp: ap_Inr z_enum_Inr z_string_min_Inr)
qed


text \<open>
  C4, as the schema has it. A request is accepted only if its \<^verbatim>\<open>postType\<close> is one of
  \<^verbatim>\<open>post\<close>, \<^verbatim>\<open>thread\<close>, \<^verbatim>\<open>poll\<close> and its topic is a string of at least one
  character, and the accepted value carries both unchanged; a request that violates
  either condition is rejected. The topic is not trimmed: white space counts.
\<close>

theorem contentSchema_accepts_only:
  "(contentSchema_parse b = Inr c \<longrightarrow>
      get_prop b ''postType'' = Some (JStr (postType c)) \<and>
      postType c \<in> {''post'', ''thread'', ''poll''} \<and>
      get_prop b ''topic'' = Some (JStr (topic c)) \<and> topic c \<noteq> []) \<and>
   (\<not> kind_ok (get_prop b ''postType'') \<or> \<not> topic_ok (get_prop b ''topic'') \<longrightarrow>
      isl (contentSchema_parse b))"
proof (rule conjI; rule impI)
  assume "contentSchema_parse b = Inr c"
  then show "get_prop b ''postType'' = Some (JStr (postType c)) \<and>
      postType c \<in> {''post'', ''thread'', ''poll''} \<and>
      get_prop b ''topic'' = Some (JStr (topic c)) \<and> topic c \<noteq> []"
    by (rule contentSchema_parse_Inr)
next
  assume bad: "\<not> kind_ok (get_prop b ''postType'') \<or> \<not> topic_ok (get_prop b ''topic'')"
  show "isl (contentSchema_parse b)"
  proof (cases "contentSchema_parse b")
    case (Inl iss)
    then show ?thesis by simp
  next
    case (Inr v)
    from contentSchema_parse_Inr [OF this] bad show ?thesis
      by (simp add: kind_ok_def topic_ok_def)
  qed
qed

text \<open>An accepted and a rejected request, through the theorem.\<close>

theorem contentSchema_accepts_only_witness:
  "contentSchema_parse (JObj [(''postType'', JStr ''poll''), (''topic'', JStr ''remote work'')]) =
     Inr \<lparr>postType = ''poll'', topic = ''remote work'', audience = ''general audience'',
          style = ''neutral and engaging'', guidelines = ''none'', preferences = None\<rparr> \<and>
   get_prop (JObj [(''postType'', JStr ''poll''), (''topic'', JStr ''remote work'')]) ''topic'' =
     Some (JStr ''remote work'') \<and>
   \<not> topic_ok (get_prop (JObj [(''postType'', JStr ''poll''), (''topic'', JStr [])]) ''topic'') \<and>
   isl (contentSchema_parse (JObj [(''postType'', JStr ''poll''), (''topic'', JStr [])]))"
  using contentSchema_accepts_only
    [of "JObj [(''postType'', JStr ''poll''), (''topic'', JStr ''remote work'')]"
      "\<lparr>postType = ''poll'', topic = ''remote work'', audience = ''general audience'',
          style = ''neutral and engaging'', guidelines = ''none'', preferences = None\<rparr>"]
    contentSchema_accepts_only
    [of "JObj [(''postType'', JStr ''poll''), (''topic'', JStr [])]"]
  by (simp add: contentSchema_parse_def contentSchema_def z_enum_def z_string_min_def
      z_string_def z_optional_default_def z_optional_def topic_ok_def)

text \<open>
  C4 as stated asks for a topic that is non-empty after trimming. A topic of one space
  is accepted, and trims to the empty string.
\<close>

theorem whitespace_topic_accepted:
  "contentSchema_parse (JObj [(''postType'', JStr ''post''), (''topic'', JStr '' '')]) =
     Inr \<lparr>postType = ''post'', topic = '' '', audience = ''general audience'',
          style = ''neutral and engaging'', guidelines = ''none'', preferences = None\<rparr> \<and>
   trim '' '' = []"
  by (simp add: contentSchema_parse_def contentSchema_def z_enum_def z_string_min_def
      z_string_def z_optional_default_def z_optional_def trim_def is_space_def)


lemma route_next:
  "snd (checkCache e b) = None \<Longrightarrow>
   route h e b =
     (case h e b of
        (evs, store, r) \<Rightarrow>
          \<lparr>reply = (case r of Inl err \<Rightarrow> errorHandler err
                              | Inr res \<Rightarrow> \<lparr>status = 200, body = res\<rparr>),
           cache_after = store, events = fst (checkCache e b) @ evs\<rparr>)"
  by (cases "checkCache e b") (auto simp: route_def split: prod.splits sum.splits)

lemma route_hit:
  "snd (checkCache e b) = Some resp \<Longrightarrow>
   route h e b = \<lparr>reply = resp, cache_after = redis e, events = fst (checkCache e b)\<rparr>"
  by (cases "checkCache e b") (auto simp: route_def)



section \<open>Properties of the routes\<close>

lemma checkCache_events:
  "fst (checkCache e b) = (if redis e = None then [] else [CacheGet (''content:'' @ JSON_stringify b)])"
  by (simp add: checkCache_def Let_def split: option.splits)

lemma checkCache_miss:
  "snd (checkCache e b) = None \<Longrightarrow> redis e = Some store \<Longrightarrow> redis_get_error e = None \<Longrightarrow>
   store (''content:'' @ JSON_stringify b) = None"
  by (simp add: checkCache_def Let_def split: option.splits)

lemma errorHandler_failure:
  "get_prop (body (errorHandler err)) ''success'' = Some (JBool False) \<and>
   (\<exists>msg. get_prop (body (errorHandler err)) ''error'' = Some (JStr msg))"
  by (cases err) (simp_all add: errorHandler_def Let_def)

text \<open>What a route's outcome is when its handler throws before the cache write.\<close>

lemma route_thrown:
  assumes "snd (checkCache e b) = None" and "h e b = (evs, redis e, Inl err)"
    and "\<not> (\<exists>k. CacheSet k \<in> set evs)"
  shows "failure_uncached e (route h e b)"
  using assms errorHandler_failure [of err]
  by (auto simp add: route_next failure_uncached_def checkCache_events)

lemma generatePost_handler_chat_failed:
  assumes "contentSchema_parse b = Inr v" "\<not> api_key_missing e"
    "generatePrompt (postType v) v = Inr prompt"
    "chat_failed e \<lparr>model = ''gpt-4o-mini'', system_content = post_system,
                    user_content = prompt\<rparr>"
    "\<not> null_content e \<lparr>model = ''gpt-4o-mini'', system_content = post_system,
                    user_content = prompt\<rparr>"
  shows "\<exists>err. generatePost_handler e b =
           ([Validate, ChatCall \<lparr>model = ''gpt-4o-mini'', system_content = post_system,
                    user_content = prompt\<rparr>], redis e, Inl err)"
  using assms
  by (simp add: generatePost_handler_def chat_failed_def null_content_def Let_def
      split: sum.splits list.splits)

lemma route_events_handler:
  assumes "x \<in> set (events (route h e b))" and "\<not> is_lookup x"
  shows "snd (checkCache e b) = None \<and> x \<in> set (fst (h e b))"
proof -
  have no: "x \<notin> set (fst (checkCache e b))"
    using assms(2) by (auto simp: checkCache_events)
  have miss: "snd (checkCache e b) = None"
  proof (cases "snd (checkCache e b)")
    case None
    then show ?thesis .
  next
    case (Some resp)
    with assms(1) no show ?thesis by (simp add: route_hit)
  qed
  with assms(1) no have "x \<in> set (fst (h e b))"
    by (auto simp add: route_next split: prod.splits)
  with miss show ?thesis by blast
qed

lemma generatePost_handler_ChatCall:
  assumes "ChatCall req \<in> set (fst (generatePost_handler e b))"
  shows "\<exists>v prompt. contentSchema_parse b = Inr v \<and> \<not> api_key_missing e \<and>
            generatePrompt (postType v) v = Inr prompt \<and>
            req = \<lparr>model = ''gpt-4o-mini'', system_content = post_system,
                    user_content = prompt\<rparr>"
  using assms
  by (auto simp add: generatePost_handler_def cache_result_def Let_def
      split: sum.splits if_splits list.splits option.splits)

lemma generatePoll_handler_ChatCall:
  assumes "ChatCall req \<in> set (fst (generatePoll_handler e b))"
  shows "truthy (get_prop b ''topic'') \<and> \<not> api_key_missing e \<and>
         req = \<lparr>model = ''gpt-4o-mini'', system_content = poll_system,
                 user_content = poll_prompt b\<rparr>"
  using assms
  by (auto simp add: generatePoll_handler_def cache_result_def Let_def
      split: sum.splits if_splits list.splits option.splits)

lemma generatePoll_handler_chat_failed:
  assumes "truthy (get_prop b ''topic'')" "\<not> api_key_missing e"
    "chat_failed e \<lparr>model = ''gpt-4o-mini'', system_content = poll_system,
                    user_content = poll_prompt b\<rparr>"
  shows "\<exists>err. generatePoll_handler e b =
           ([Validate, ChatCall \<lparr>model = ''gpt-4o-mini'', system_content = poll_system,
                    user_content = poll_prompt b\<rparr>], redis e, Inl err)"
  using assms
  by (simp add: generatePoll_handler_def chat_failed_def Let_def
      split: sum.splits list.splits option.splits)

lemma generateImage_handler_ImageCall:
  assumes "ImageCall req \<in> set (fst (generateImage_handler e b))"
  shows "\<exists>prompt. get_prop b ''prompt'' = Some prompt \<and> truthy (Some prompt) \<and>
         \<not> api_key_missing e \<and>
         req = \<lparr>image_model = ''dall-e-3'', image_prompt = prompt, image_n = 1,
                 image_size = ''1024x1024'', image_quality = ''standard'',
                 image_response_format = ''url''\<rparr>"
  using assms
  by (auto simp add: generateImage_handler_def cache_result_def Let_def
      split: sum.splits if_splits list.splits option.splits)

lemma generateImage_handler_image_failed:
  assumes "get_prop b ''prompt'' = Some prompt" "truthy (Some prompt)" "\<not> api_key_missing e"
    "image_failed e \<lparr>image_model = ''dall-e-3'', image_prompt = prompt, image_n = 1,
                 image_size = ''1024x1024'', image_quality = ''standard'',
                 image_response_format = ''url''\<rparr>"
  shows "\<exists>err. generateImage_handler e b =
           ([Validate, ImageCall \<lparr>image_model = ''dall-e-3'', image_prompt = prompt,
                 image_n = 1, image_size = ''1024x1024'', image_quality = ''standard'',
                 image_response_format = ''url''\<rparr>], redis e, Inl err)"
  using assms
  by (simp add: generateImage_handler_def image_failed_def Let_def split: sum.splits)

text \<open>
  Where the routes do treat an upstream failure as one. On the poll and image routes
  every upstream failure, and on the post route every one but a first choice without
  content, ends in a response that says \<^verbatim>\<open>success: false\<close> with an error message,
  with the cache exactly as before and no write to it attempted. On the post route the
  looked-up key then has no entry, provided the lookup itself did not fail.
\<close>

lemma upstream_failure_uncached:
  "(ChatCall req \<in> set (events (generatePost e b)) \<and> chat_failed e req \<and>
    \<not> null_content e req \<longrightarrow>
      failure_uncached e (generatePost e b) \<and>
      (\<forall>store. redis e = Some store \<and> redis_get_error e = None \<longrightarrow>
         store (''content:'' @ JSON_stringify b) = None)) \<and>
   (ChatCall req \<in> set (events (generatePoll e b)) \<and> chat_failed e req \<longrightarrow>
      failure_uncached e (generatePoll e b)) \<and>
   (ImageCall ireq \<in> set (events (generateImage e b)) \<and> image_failed e ireq \<longrightarrow>
      failure_uncached e (generateImage e b))"
proof (intro conjI impI allI)
  assume a: "ChatCall req \<in> set (events (generatePost e b)) \<and> chat_failed e req \<and>
    \<not> null_content e req"
  then have miss: "snd (checkCache e b) = None"
    and call: "ChatCall req \<in> set (fst (generatePost_handler e b))"
    using route_events_handler [of "ChatCall req" generatePost_handler e b]
    by (simp_all add: generatePost_def)
  from generatePost_handler_ChatCall [OF call] a
  obtain err where "generatePost_handler e b = ([Validate, ChatCall req], redis e, Inl err)"
    using generatePost_handler_chat_failed [of b _ e] by blast
  then show "failure_uncached e (generatePost e b)"
    unfolding generatePost_def using miss by (intro route_thrown) auto
  fix store
  assume "redis e = Some store \<and> redis_get_error e = None"
  with miss show "store (''content:'' @ JSON_stringify b) = None"
    using checkCache_miss by blast
next
  assume a: "ChatCall req \<in> set (events (generatePoll e b)) \<and> chat_failed e req"
  then have miss: "snd (checkCache e b) = None"
    and call: "ChatCall req \<in> set (fst (generatePoll_handler e b))"
    using route_events_handler [of "ChatCall req" generatePoll_handler e b]
    by (simp_all add: generatePoll_def)
  from generatePoll_handler_ChatCall [OF call] a
  obtain err where "generatePoll_handler e b = ([Validate, ChatCall req], redis e, Inl err)"
    using generatePoll_handler_chat_failed [of b e] by blast
  then show "failure_uncached e (generatePoll e b)"
    unfolding generatePoll_def using miss by (intro route_thrown) auto
next
  assume a: "ImageCall ireq \<in> set (events (generateImage e b)) \<and> image_failed e ireq"
  then have miss: "snd (checkCache e b) = None"
    and call: "ImageCall ireq \<in> set (fst (generateImage_handler e b))"
    using route_events_handler [of "ImageCall ireq" generateImage_handler e b]
    by (simp_all add: generateImage_def)
  from generateImage_handler_ImageCall [OF call] a
  obtain err where "generateImage_handler e b = ([Validate, ImageCall ireq], redis e, Inl err)"
    using generateImage_handler_image_failed [of b _ e] by blast
  then show "failure_uncached e (generateImage e b)"
    unfolding generateImage_def using miss by (intro route_thrown) auto
qed

lemma remote_work_valid: "contentSchema_parse remote_work = Inr remote_work_input"
  by (simp add: remote_work_def remote_work_input_def contentSchema_parse_def contentSchema_def
      z_enum_def z_string_min_def z_string_def z_optional_default_def z_optional_def)

lemma remote_work_prompt:
  "generatePrompt (postType remote_work_input) remote_work_input =
     Inr (poll_template remote_work_input)"
  by (simp add: generatePrompt_def promptTemplates_def remote_work_input_def)

lemma generatePost_timeout:
  "generatePost (failing (Some Map.empty) timed_out) remote_work =
     \<lparr>reply = internal_server_error, cache_after = Some Map.empty,
      events = [CacheGet (''content:'' @ JSON_stringify remote_work), Validate,
                ChatCall (post_request (poll_template remote_work_input))]\<rparr>"
  by (simp add: generatePost_def route_def checkCache_def generatePost_handler_def
      remote_work_valid remote_work_prompt failing_def api_key_missing_def errorHandler_def
      internal_server_error_def timed_out_def post_request_def)

lemma generatePoll_timeout:
  "generatePoll (failing (Some Map.empty) timed_out) remote_work =
     \<lparr>reply = internal_server_error, cache_after = Some Map.empty,
      events = [CacheGet (''content:'' @ JSON_stringify remote_work), Validate,
                ChatCall (poll_request remote_work)]\<rparr>"
  by (simp add: generatePoll_def route_def checkCache_def generatePoll_handler_def
      failing_def api_key_missing_def errorHandler_def timed_out_def poll_request_def
      internal_server_error_def) (simp add: remote_work_def)

lemma generateImage_timeout:
  "generateImage (failing (Some Map.empty) timed_out) a_cat =
     \<lparr>reply = internal_server_error, cache_after = Some Map.empty,
      events = [CacheGet (''content:'' @ JSON_stringify a_cat), Validate,
                ImageCall (image_request_of (JStr ''a cat''))]\<rparr>"
  by (simp add: generateImage_def route_def checkCache_def generateImage_handler_def
      failing_def api_key_missing_def errorHandler_def timed_out_def image_request_of_def
      internal_server_error_def a_cat_def)

text \<open>The timeout scenario of the specification on the three routes.\<close>

lemma upstream_timeout_uncached:
  "ChatCall (post_request (poll_template remote_work_input)) \<in>
     set (events (generatePost (failing (Some Map.empty) timed_out) remote_work)) \<and>
   chat_failed (failing (Some Map.empty) timed_out)
     (post_request (poll_template remote_work_input)) \<and>
   failure_uncached (failing (Some Map.empty) timed_out)
     (generatePost (failing (Some Map.empty) timed_out) remote_work) \<and>
   reply (generatePost (failing (Some Map.empty) timed_out) remote_work) =
     internal_server_error \<and>
   cache_after (generatePost (failing (Some Map.empty) timed_out) remote_work) =
     Some Map.empty \<and>
   ChatCall (poll_request remote_work) \<in>
     set (events (generatePoll (failing (Some Map.empty) timed_out) remote_work)) \<and>
   failure_uncached (failing (Some Map.empty) timed_out)
     (generatePoll (failing (Some Map.empty) timed_out) remote_work) \<and>
   ImageCall (image_request_of (JStr ''a cat'')) \<in>
     set (events (generateImage (failing (Some Map.empty) timed_out) a_cat)) \<and>
   image_failed (failing (Some Map.empty) timed_out) (image_request_of (JStr ''a cat'')) \<and>
   failure_uncached (failing (Some Map.empty) timed_out)
     (generateImage (failing (Some Map.empty) timed_out) a_cat)"
  using upstream_failure_uncached
    [of "post_request (poll_template remote_work_input)" "failing (Some Map.empty) timed_out"
      remote_work "image_request_of (JStr ''a cat'')"]
    upstream_failure_uncached
    [of "poll_request remote_work" "failing (Some Map.empty) timed_out"
      a_cat "image_request_of (JStr ''a cat'')"]
    upstream_failure_uncached
    [of "poll_request remote_work" "failing (Some Map.empty) timed_out"
      remote_work "image_request_of (JStr ''a cat'')"]
  by (simp add: generatePost_timeout generatePoll_timeout
      generateImage_timeout post_request_def chat_failed_def null_content_def
      image_failed_def)
     (simp add: failing_def)

text \<open>
  C8, as the error handler has it. A request that the cache lookup does not answer and
  that passes validation while the API key is missing fails for itself only: the
  response is status 500 with \<^verbatim>\<open>success: false\<close> and the generic message
  \<^verbatim>\<open>Internal server error\<close>, no upstream call is made and the cache is left as it
  was.
\<close>

theorem missing_api_key_response:
  assumes "api_key_missing e" and "snd (checkCache e b) = None"
    and "contentSchema_parse b = Inr v"
  shows "generatePost e b =
           \<lparr>reply = \<lparr>status = 500,
                     body = JObj [(''success'', JBool False),
                                  (''error'', JStr ''Internal server error'')]\<rparr>,
            cache_after = redis e,
            events = fst (checkCache e b) @ [Validate]\<rparr>"
  using assms
  by (simp add: generatePost_def route_next generatePost_handler_def errorHandler_def)

text \<open>The scenario's request without an API key, through the theorem.\<close>

theorem missing_api_key_response_witness:
  "api_key_missing (keyless (Some Map.empty)) \<and>
   snd (checkCache (keyless (Some Map.empty)) remote_work) = None \<and>
   contentSchema_parse remote_work = Inr remote_work_input \<and>
   generatePost (keyless (Some Map.empty)) remote_work =
     \<lparr>reply = \<lparr>status = 500,
               body = JObj [(''success'', JBool False),
                            (''error'', JStr ''Internal server error'')]\<rparr>,
      cache_after = Some Map.empty,
      events = [CacheGet (''content:'' @ JSON_stringify remote_work), Validate]\<rparr>"
  using missing_api_key_response [of "keyless (Some Map.empty)" remote_work remote_work_input]
  by (simp add: keyless_def answering_def api_key_missing_def checkCache_def remote_work_valid)

text \<open>
  C8 as stated has the configuration error sent on as it is, and every request failing
  while the key is missing. The message the caller gets is the generic one, not
  \<^verbatim>\<open>OpenAI API key is not configured\<close>; and a request that the cache answers
  succeeds without the key.
\<close>

theorem missing_api_key_not_verbatim:
  "api_key_missing (keyless None) \<and>
   get_prop (body (reply (generatePost (keyless None) remote_work))) ''error'' =
     Some (JStr ''Internal server error'') \<and>
   get_prop (body (reply (generatePost (keyless None) remote_work))) ''error'' \<noteq>
     Some (JStr ''OpenAI API key is not configured'') \<and>
   api_key_missing (keyless (Some cached_hello)) \<and>
   reply (generatePost (keyless (Some cached_hello)) remote_work) =
     \<lparr>status = 200, body = JObj [(''success'', JBool True), (''content'', JStr ''Hello'')]\<rparr>"
  by (simp add: keyless_def answering_def api_key_missing_def generatePost_def route_def
      checkCache_def generatePost_handler_def remote_work_valid errorHandler_def
      cached_hello_def)

lemma route_next_events:
  "snd (checkCache e b) = None \<Longrightarrow>
   events (route h e b) = fst (checkCache e b) @ fst (h e b)"
  by (cases "h e b") (simp add: route_next)

lemma only_after_append_hit: "a \<in> set pre \<Longrightarrow> \<forall>x \<in> set pre. \<not> P x \<Longrightarrow>
   only_after a P (pre @ post)"
  by (induction pre) auto

lemma only_after_none: "\<forall>x \<in> set evs. \<not> P x \<Longrightarrow> only_after a P evs"
  by (induction evs) auto

lemma generatePost_handler_events:
  "\<exists>rest. fst (generatePost_handler e b) = Validate # rest"
  by (simp add: generatePost_handler_def cache_result_def Let_def
      split: sum.splits list.splits option.splits)

text \<open>
  C2, as the route is wired. Validation comes before any upstream call. The cache
  lookup is not behind validation: with a Redis client the lookup is the first effect
  of a request, and a request the lookup answers is served without validation or any
  other effect.
\<close>

theorem validation_before_upstream:
  "only_after Validate is_upstream (events (generatePost e b)) \<and>
   (redis e \<noteq> None \<longrightarrow>
      take 1 (events (generatePost e b)) = [CacheGet (''content:'' @ JSON_stringify b)]) \<and>
   (\<forall>resp. snd (checkCache e b) = Some resp \<longrightarrow>
      generatePost e b =
        \<lparr>reply = resp, cache_after = redis e,
         events = [CacheGet (''content:'' @ JSON_stringify b)]\<rparr>)"
proof (intro conjI impI allI)
  obtain rest where rest: "fst (generatePost_handler e b) = Validate # rest"
    using generatePost_handler_events by blast
  show "only_after Validate is_upstream (events (generatePost e b))"
  proof (cases "snd (checkCache e b)")
    case None
    then have "events (generatePost e b) = (fst (checkCache e b) @ [Validate]) @ rest"
      using rest by (simp add: generatePost_def route_next_events)
    then show ?thesis
      by (simp only:) (rule only_after_append_hit, auto simp: checkCache_events)
  next
    case (Some resp)
    then have "events (generatePost e b) = fst (checkCache e b)"
      by (simp add: generatePost_def route_hit)
    then show ?thesis
      by (simp only:) (rule only_after_none, auto simp: checkCache_events)
  qed
  show "take 1 (events (generatePost e b)) = [CacheGet (''content:'' @ JSON_stringify b)]"
    if "redis e \<noteq> None"
  proof (cases "snd (checkCache e b)")
    case None
    then show ?thesis
      using that by (simp add: generatePost_def route_next_events checkCache_events)
  next
    case (Some resp)
    then show ?thesis
      using that by (simp add: generatePost_def route_hit checkCache_events)
  qed
  show "generatePost e b =
        \<lparr>reply = resp, cache_after = redis e,
         events = [CacheGet (''content:'' @ JSON_stringify b)]\<rparr>"
    if "snd (checkCache e b) = Some resp" for resp
  proof -
    from that have "redis e \<noteq> None"
      by (cases "redis e") (simp_all add: checkCache_def)
    with that show ?thesis
      by (simp add: generatePost_def route_hit checkCache_events)
  qed
qed

text \<open>A request answered from the cache, through the theorem.\<close>

theorem validation_before_upstream_witness:
  "redis (keyless (Some cached_hello)) \<noteq> None \<and>
   snd (checkCache (keyless (Some cached_hello)) remote_work) =
     Some \<lparr>status = 200, body = JObj [(''success'', JBool True), (''content'', JStr ''Hello'')]\<rparr> \<and>
   generatePost (keyless (Some cached_hello)) remote_work =
     \<lparr>reply = \<lparr>status = 200,
               body = JObj [(''success'', JBool True), (''content'', JStr ''Hello'')]\<rparr>,
      cache_after = Some cached_hello,
      events = [CacheGet (''content:'' @ JSON_stringify remote_work)]\<rparr>"
  using validation_before_upstream [of "keyless (Some cached_hello)" remote_work]
  by (simp add: keyless_def answering_def checkCache_def cached_hello_def)

text \<open>
  C2 as stated has every cache lookup after validation. With a Redis client the lookup
  comes first.
\<close>

theorem lookup_precedes_validation:
  "\<not> only_after Validate is_lookup
       (events (generatePost (keyless (Some Map.empty)) remote_work))"
  by (simp add: generatePost_def route_def checkCache_def keyless_def answering_def
      split: prod.splits sum.splits)

text \<open>What the handlers do does not depend on the lookup or on what the cache holds.\<close>

lemma cache_result_independent:
  "redis e' \<noteq> None \<Longrightarrow> redis e \<noteq> None \<Longrightarrow> redis_setex_error e' = redis_setex_error e \<Longrightarrow>
   fst (cache_result e' k r evs) = fst (cache_result e k r evs) \<and>
   snd (snd (cache_result e' k r evs)) = snd (snd (cache_result e k r evs))"
  by (auto simp add: cache_result_def split: option.splits)

lemma generatePost_handler_independent:
  assumes "redis e' \<noteq> None" "redis e \<noteq> None" "redis_setex_error e' = redis_setex_error e"
    "OPENAI_API_KEY e' = OPENAI_API_KEY e" "chat_create e' = chat_create e"
  shows "fst (generatePost_handler e' b) = fst (generatePost_handler e b) \<and>
         snd (snd (generatePost_handler e' b)) = snd (snd (generatePost_handler e b))"
  using assms cache_result_independent [of e' e]
  by (simp add: generatePost_handler_def api_key_missing_def Let_def
      split: sum.splits list.splits)

lemma generatePoll_handler_independent:
  assumes "redis e' \<noteq> None" "redis e \<noteq> None" "redis_setex_error e' = redis_setex_error e"
    "OPENAI_API_KEY e' = OPENAI_API_KEY e" "chat_create e' = chat_create e"
  shows "fst (generatePoll_handler e' b) = fst (generatePoll_handler e b) \<and>
         snd (snd (generatePoll_handler e' b)) = snd (snd (generatePoll_handler e b))"
  using assms cache_result_independent [of e' e]
  by (simp add: generatePoll_handler_def api_key_missing_def Let_def
      split: sum.splits list.splits option.splits)

lemma generateImage_handler_independent:
  assumes "redis e' \<noteq> None" "redis e \<noteq> None" "redis_setex_error e' = redis_setex_error e"
    "OPENAI_API_KEY e' = OPENAI_API_KEY e" "images_generate e' = images_generate e"
  shows "fst (generateImage_handler e' b) = fst (generateImage_handler e b) \<and>
         snd (snd (generateImage_handler e' b)) = snd (snd (generateImage_handler e b))"
  using assms cache_result_independent [of e' e]
  by (simp add: generateImage_handler_def api_key_missing_def Let_def
      split: sum.splits list.splits option.splits)

lemma route_next_reply:
  "snd (checkCache e b) = None \<Longrightarrow>
   reply (route h e b) =
     (case snd (snd (h e b)) of
        Inl err \<Rightarrow> errorHandler err
      | Inr res \<Rightarrow> \<lparr>status = 200, body = res\<rparr>)"
  by (cases "h e b") (simp add: route_next)

lemma checkCache_get_error:
  "redis e = Some store \<Longrightarrow>
   checkCache (e\<lparr>redis_get_error := Some err\<rparr>) b =
     ([CacheGet (''content:'' @ JSON_stringify b)], None)"
  by (simp add: checkCache_def)

lemma checkCache_absent:
  "checkCache (e\<lparr>redis_get_error := None,
                  redis := Some (store(''content:'' @ JSON_stringify b := None))\<rparr>) b =
     ([CacheGet (''content:'' @ JSON_stringify b)], None)"
  by (simp add: checkCache_def)

lemma route_get_error_as_miss:
  assumes "redis e = Some store"
    and "\<And>e' e. redis e' \<noteq> None \<Longrightarrow> redis e \<noteq> None \<Longrightarrow>
           redis_setex_error e' = redis_setex_error e \<Longrightarrow>
           OPENAI_API_KEY e' = OPENAI_API_KEY e \<Longrightarrow> chat_create e' = chat_create e \<Longrightarrow>
           images_generate e' = images_generate e \<Longrightarrow>
           fst (h e' b) = fst (h e b) \<and> snd (snd (h e' b)) = snd (snd (h e b))"
  shows "reply (route h (e\<lparr>redis_get_error := Some err\<rparr>) b) =
         reply (route h (e\<lparr>redis_get_error := None,
                    redis := Some (store(''content:'' @ JSON_stringify b := None))\<rparr>) b) \<and>
         events (route h (e\<lparr>redis_get_error := Some err\<rparr>) b) =
         events (route h (e\<lparr>redis_get_error := None,
                    redis := Some (store(''content:'' @ JSON_stringify b := None))\<rparr>) b)"
proof -
  let ?e1 = "e\<lparr>redis_get_error := Some err\<rparr>"
  let ?e2 = "e\<lparr>redis_get_error := None,
                redis := Some (store(''content:'' @ JSON_stringify b := None))\<rparr>"
  have same: "fst (h ?e1 b) = fst (h ?e2 b) \<and> snd (snd (h ?e1 b)) = snd (snd (h ?e2 b))"
    by (rule assms(2)) (simp_all add: assms(1))
  have c1: "checkCache ?e1 b = ([CacheGet (''content:'' @ JSON_stringify b)], None)"
    using assms(1) by (rule checkCache_get_error)
  have c2: "checkCache ?e2 b = ([CacheGet (''content:'' @ JSON_stringify b)], None)"
    by (rule checkCache_absent)
  have m1: "snd (checkCache ?e1 b) = None" and m2: "snd (checkCache ?e2 b) = None"
    by (simp_all only: c1 c2 snd_conv)
  have "reply (route h ?e1 b) = reply (route h ?e2 b)"
    by (simp only: route_next_reply [OF m1] route_next_reply [OF m2] same)
  moreover have "events (route h ?e1 b) = events (route h ?e2 b)"
    by (simp only: route_next_events [OF m1] route_next_events [OF m2] same c1 c2)
  ultimately show ?thesis by (rule conjI)
qed

lemma generatePost_success_after_get_error:
  assumes "redis e = Some store" "contentSchema_parse b = Inr v" "\<not> api_key_missing e"
    "generatePrompt (postType v) v = Inr prompt"
    "chat_create e (post_request prompt) = Inr c" "choices c = choice # others"
    "redis_setex_error e = None"
  shows "reply (generatePost (e\<lparr>redis_get_error := Some err\<rparr>) b) =
           \<lparr>status = 200,
            body = JObj ([(''success'', JBool True), (''content'', null_or_string choice)] @
                         optional_member ''usage'' (usage c))\<rparr>"
proof -
  let ?e1 = "e\<lparr>redis_get_error := Some err\<rparr>"
  have m1: "snd (checkCache ?e1 b) = None"
    using checkCache_get_error [OF assms(1), of err b] by (simp only: snd_conv)
  have "snd (snd (generatePost_handler ?e1 b)) =
          Inr (JObj ([(''success'', JBool True), (''content'', null_or_string choice)] @
                         optional_member ''usage'' (usage c)))"
    using assms
    by (simp add: generatePost_handler_def api_key_missing_def post_request_def
        cache_result_def)
  then show ?thesis
    by (simp add: generatePost_def route_next_reply [OF m1])
qed

lemma generatePost_answered:
  "generatePost (answering None raw) remote_work =
     \<lparr>reply = \<lparr>status = 200,
               body = JObj [(''success'', JBool True), (''content'', JStr raw)]\<rparr>,
      cache_after = None,
      events = [Validate, ChatCall (post_request (poll_template remote_work_input))]\<rparr>"
  by (simp add: generatePost_def route_def checkCache_def generatePost_handler_def
      answering_def api_key_missing_def remote_work_valid remote_work_prompt cache_result_def
      post_request_def null_or_string_def optional_member_def)

lemma generatePost_miss:
  assumes "store (''content:'' @ JSON_stringify remote_work) = None \<or> get_err \<noteq> None"
  shows "generatePost (answering (Some store) raw\<lparr>redis_get_error := get_err\<rparr>) remote_work =
     \<lparr>reply = \<lparr>status = 200,
               body = JObj [(''success'', JBool True), (''content'', JStr raw)]\<rparr>,
      cache_after = Some (store(''content:'' @ JSON_stringify remote_work \<mapsto>
         \<lparr>ttl = 3600, cached = JObj [(''success'', JBool True), (''content'', JStr raw)]\<rparr>)),
      events = [CacheGet (''content:'' @ JSON_stringify remote_work), Validate,
                ChatCall (post_request (poll_template remote_work_input)),
                CacheSet (''content:'' @ JSON_stringify remote_work)]\<rparr>"
  using assms
  by (cases get_err)
    (simp_all add: generatePost_def route_def checkCache_def generatePost_handler_def
      answering_def api_key_missing_def remote_work_valid remote_work_prompt cache_result_def
      post_request_def null_or_string_def optional_member_def Let_def)

text \<open>
  A rejected \<^verbatim>\<open>get\<close> by itself changes nothing: each route answers and acts as it
  does on a miss, that is with a working \<^verbatim>\<open>get\<close> and no entry under the looked-up
  key. A valid post request whose upstream call and cache write succeed is then
  answered with its result.
\<close>

lemma redis_get_error_as_miss:
  assumes "redis e = Some store"
  shows "reply (generatePost (e\<lparr>redis_get_error := Some err\<rparr>) b) =
         reply (generatePost (e\<lparr>redis_get_error := None,
                    redis := Some (store(''content:'' @ JSON_stringify b := None))\<rparr>) b) \<and>
         events (generatePost (e\<lparr>redis_get_error := Some err\<rparr>) b) =
         events (generatePost (e\<lparr>redis_get_error := None,
                    redis := Some (store(''content:'' @ JSON_stringify b := None))\<rparr>) b) \<and>
         reply (generatePoll (e\<lparr>redis_get_error := Some err\<rparr>) b) =
         reply (generatePoll (e\<lparr>redis_get_error := None,
                    redis := Some (store(''content:'' @ JSON_stringify b := None))\<rparr>) b) \<and>
         events (generatePoll (e\<lparr>redis_get_error := Some err\<rparr>) b) =
         events (generatePoll (e\<lparr>redis_get_error := None,
                    redis := Some (store(''content:'' @ JSON_stringify b := None))\<rparr>) b) \<and>
         reply (generateImage (e\<lparr>redis_get_error := Some err\<rparr>) b) =
         reply (generateImage (e\<lparr>redis_get_error := None,
                    redis := Some (store(''content:'' @ JSON_stringify b := None))\<rparr>) b) \<and>
         events (generateImage (e\<lparr>redis_get_error := Some err\<rparr>) b) =
         events (generateImage (e\<lparr>redis_get_error := None,
                    redis := Some (store(''content:'' @ JSON_stringify b := None))\<rparr>) b) \<and>
         (contentSchema_parse b = Inr v \<and> \<not> api_key_missing e \<and>
          generatePrompt (postType v) v = Inr prompt \<and>
          chat_create e (post_request prompt) = Inr c \<and> choices c = choice # others \<and>
          redis_setex_error e = None \<longrightarrow>
          reply (generatePost (e\<lparr>redis_get_error := Some err\<rparr>) b) =
            \<lparr>status = 200,
             body = JObj ([(''success'', JBool True), (''content'', null_or_string choice)] @
                          optional_member ''usage'' (usage c))\<rparr>)"
  using route_get_error_as_miss [OF assms, of generatePost_handler b err]
    route_get_error_as_miss [OF assms, of generatePoll_handler b err]
    route_get_error_as_miss [OF assms, of generateImage_handler b err]
    generatePost_handler_independent [of _ _ b]
    generatePoll_handler_independent [of _ _ b]
    generateImage_handler_independent [of _ _ b]
    generatePost_success_after_get_error [OF assms, of b v prompt c choice others err]
  unfolding generatePost_def generatePoll_def generateImage_def
  by blast

text \<open>A failed lookup of a key the cache holds: the request is served by the upstream call.\<close>

lemma redis_get_error_served_upstream:
  "redis (answering (Some cached_hello) ''Hello again'') = Some cached_hello \<and>
   generatePost
     (answering (Some cached_hello) ''Hello again''\<lparr>redis_get_error := Some outage\<rparr>)
     remote_work =
     \<lparr>reply = \<lparr>status = 200,
               body = JObj [(''success'', JBool True), (''content'', JStr ''Hello again'')]\<rparr>,
      cache_after = Some (cached_hello(''content:'' @ JSON_stringify remote_work \<mapsto>
         \<lparr>ttl = 3600,
          cached = JObj [(''success'', JBool True), (''content'', JStr ''Hello again'')]\<rparr>)),
      events = [CacheGet (''content:'' @ JSON_stringify remote_work), Validate,
                ChatCall (post_request (poll_template remote_work_input)),
                CacheSet (''content:'' @ JSON_stringify remote_work)]\<rparr> \<and>
   reply (generatePost
     (answering (Some cached_hello) ''Hello again''
        \<lparr>redis_get_error := None,
         redis := Some (cached_hello(''content:'' @ JSON_stringify remote_work := None))\<rparr>)
     remote_work) =
     \<lparr>status = 200,
      body = JObj [(''success'', JBool True), (''content'', JStr ''Hello again'')]\<rparr>"
  using redis_get_error_as_miss
    [of "answering (Some cached_hello) ''Hello again''" cached_hello outage remote_work
      remote_work_input "poll_template remote_work_input"
      "\<lparr>choices = [Some ''Hello again''], usage = None\<rparr>" "Some ''Hello again''" "[]"]
  by (simp add: generatePost_miss) (simp add: answering_def)

lemma parse_poll_text:
  "parse_poll poll_text =
     Inr \<lparr>poll_content = poll_text, question = ''Is remote work here to stay?'',
          options = [''Yes'', ''No'', ''Depends'']\<rparr>"
  by (simp add: poll_text_def parse_poll_def poll_lines_def lines_text_def trim_def
      is_space_def nl_def strip_marker_def is_digit_def)

lemma truthy_topic: "truthy (get_prop remote_work ''topic'')"
  by (simp add: remote_work_def)

lemma generatePoll_miss:
  assumes "store (''content:'' @ JSON_stringify remote_work) = None"
  shows "generatePoll (answering (Some store) poll_text) remote_work =
     \<lparr>reply = \<lparr>status = 200, body = parsed_poll\<rparr>,
      cache_after = Some (store(''poll:'' @ JSON_stringify remote_work \<mapsto>
                            \<lparr>ttl = 3600, cached = parsed_poll\<rparr>)),
      events = [CacheGet (''content:'' @ JSON_stringify remote_work), Validate,
                ChatCall (poll_request remote_work),
                CacheSet (''poll:'' @ JSON_stringify remote_work)]\<rparr>"
  using assms
  by (simp add: generatePoll_def route_def checkCache_def generatePoll_handler_def
      answering_def api_key_missing_def truthy_topic parse_poll_text cache_result_def
      parsed_poll_def poll_request_def)

lemma generateImage_miss:
  assumes "store (''content:'' @ JSON_stringify a_cat) = None"
  shows "generateImage (answering (Some store) ''https://images.example/cat.png'') a_cat =
     \<lparr>reply = \<lparr>status = 200,
               body = JObj [(''success'', JBool True),
                            (''imageUrl'', JStr ''https://images.example/cat.png'')]\<rparr>,
      cache_after = Some (store(''image:a cat'' \<mapsto>
         \<lparr>ttl = 3600,
          cached = JObj [(''success'', JBool True),
                         (''imageUrl'', JStr ''https://images.example/cat.png'')]\<rparr>)),
      events = [CacheGet (''content:'' @ JSON_stringify a_cat), Validate,
                ImageCall (image_request_of (JStr ''a cat'')),
                CacheSet ''image:a cat'']\<rparr>"
  using assms
  by (simp add: generateImage_def route_def checkCache_def generateImage_handler_def
      answering_def api_key_missing_def a_cat_def cache_result_def first_url_def
      image_request_of_def)

lemma generatePost_hit:
  assumes "store (''content:'' @ JSON_stringify remote_work) = Some entry"
  shows "generatePost (answering (Some store) raw) remote_work =
     \<lparr>reply = \<lparr>status = 200, body = cached entry\<rparr>, cache_after = Some store,
      events = [CacheGet (''content:'' @ JSON_stringify remote_work)]\<rparr>"
  using assms
  by (simp add: generatePost_def route_def checkCache_def answering_def)

lemma generatePost_first:
  "generatePost (answering (Some Map.empty) raw) remote_work =
     \<lparr>reply = \<lparr>status = 200,
               body = JObj [(''success'', JBool True), (''content'', JStr raw)]\<rparr>,
      cache_after = Some [''content:'' @ JSON_stringify remote_work \<mapsto>
         \<lparr>ttl = 3600, cached = JObj [(''success'', JBool True), (''content'', JStr raw)]\<rparr>],
      events = [CacheGet (''content:'' @ JSON_stringify remote_work), Validate,
                ChatCall (post_request (poll_template remote_work_input)),
                CacheSet (''content:'' @ JSON_stringify remote_work)]\<rparr>"
  using generatePost_miss [of Map.empty None raw] by (simp add: answering_def)

text \<open>
  C1 at two requests. The poll route writes its result under a key that starts with
  \<^verbatim>\<open>poll:\<close>, the image route under one that starts with \<^verbatim>\<open>image:\<close>, and the
  lookup reads a key that starts with \<^verbatim>\<open>content:\<close>. So a second, identical poll or
  image request calls upstream again, where a second identical post request is
  answered from the cache.
\<close>

theorem poll_and_image_cache_never_read:
  "upstream_calls (events (generatePost
      (answering (cache_after (generatePost (answering (Some Map.empty) ''Hello'') remote_work))
         ''Hello'') remote_work)) = 0 \<and>
   upstream_calls (events (generatePoll (answering (Some Map.empty) poll_text) remote_work)) = 1 \<and>
   upstream_calls (events (generatePoll
      (answering (cache_after (generatePoll (answering (Some Map.empty) poll_text) remote_work))
         poll_text) remote_work)) = 1 \<and>
   upstream_calls (events (generateImage
      (answering (Some Map.empty) ''https://images.example/cat.png'') a_cat)) = 1 \<and>
   upstream_calls (events (generateImage
      (answering (cache_after (generateImage
          (answering (Some Map.empty) ''https://images.example/cat.png'') a_cat))
         ''https://images.example/cat.png'') a_cat)) = 1"
  by (simp add: generatePoll_miss generateImage_miss generatePost_first generatePost_hit
      upstream_calls_def poll_request_def image_request_of_def)

text \<open>
  C3 at the empty text. With no non-blank line, \<^verbatim>\<open>lines[0]\<close> is undefined and the
  parser throws; the poll route answers with status 500.
\<close>

theorem parse_poll_empty_throws:
  "parse_poll [] = Inl (TypeError ''Cannot read properties of undefined'') \<and>
   parse_poll ''  '' = Inl (TypeError ''Cannot read properties of undefined'') \<and>
   generatePoll (answering None []) remote_work =
     \<lparr>reply = internal_server_error, cache_after = None,
      events = [Validate, ChatCall (poll_request remote_work)]\<rparr>"
  by (simp add: parse_poll_def poll_lines_def trim_def is_space_def nl_def
      generatePoll_def route_def checkCache_def generatePoll_handler_def answering_def
      api_key_missing_def truthy_topic errorHandler_def TypeError_def
      internal_server_error_def poll_request_def)

text \<open>
  C9. For each of the three kinds \<^verbatim>\<open>generatePrompt\<close> returns a prompt, the same for
  equal fields. The prompt a post request sends upstream is that prompt for the
  validated request, whatever the environment: two environments send the same prompt
  for the same request.
\<close>

theorem generatePrompt_deterministic:
  "(kind \<in> {''post'', ''thread'', ''poll''} \<and> f = g \<longrightarrow>
      (\<exists>p. generatePrompt kind f = Inr p \<and> generatePrompt kind g = Inr p)) \<and>
   (ChatCall req \<in> set (events (generatePost e b)) \<and>
    ChatCall req' \<in> set (events (generatePost e' b)) \<longrightarrow>
      (\<exists>v. contentSchema_parse b = Inr v \<and>
           generatePrompt (postType v) v = Inr (user_content req)) \<and>
      user_content req = user_content req')"
proof (rule conjI; rule impI)
  assume "kind \<in> {''post'', ''thread'', ''poll''} \<and> f = g"
  then show "\<exists>p. generatePrompt kind f = Inr p \<and> generatePrompt kind g = Inr p"
    by (auto simp: generatePrompt_def promptTemplates_def)
next
  assume a: "ChatCall req \<in> set (events (generatePost e b)) \<and>
             ChatCall req' \<in> set (events (generatePost e' b))"
  then have "ChatCall req \<in> set (fst (generatePost_handler e b))"
    and "ChatCall req' \<in> set (fst (generatePost_handler e' b))"
    using route_events_handler [of "ChatCall req" generatePost_handler e b]
      route_events_handler [of "ChatCall req'" generatePost_handler e' b]
    by (simp_all add: generatePost_def)
  then obtain v p v' p' where
    "contentSchema_parse b = Inr v" "generatePrompt (postType v) v = Inr p"
    "user_content req = p"
    "contentSchema_parse b = Inr v'" "generatePrompt (postType v') v' = Inr p'"
    "user_content req' = p'"
    using generatePost_handler_ChatCall [of req e b] generatePost_handler_ChatCall [of req' e' b]
    by auto
  then show "(\<exists>v. contentSchema_parse b = Inr v \<and>
           generatePrompt (postType v) v = Inr (user_content req)) \<and>
      user_content req = user_content req'"
    by auto
qed

text \<open>The scenario's request in two environments, through the theorem.\<close>

theorem generatePrompt_deterministic_witness:
  "''poll'' \<in> {''post'', ''thread'', ''poll''} \<and>
   generatePrompt ''poll'' remote_work_input = Inr (poll_template remote_work_input) \<and>
   ChatCall (post_request (poll_template remote_work_input)) \<in>
     set (events (generatePost (answering None ''Hello'') remote_work)) \<and>
   ChatCall (post_request (poll_template remote_work_input)) \<in>
     set (events (generatePost
       (answering (Some Map.empty) ''Bonjour''\<lparr>redis_get_error := None\<rparr>) remote_work)) \<and>
   contentSchema_parse remote_work = Inr remote_work_input \<and>
   generatePrompt (postType remote_work_input) remote_work_input =
     Inr (user_content (post_request (poll_template remote_work_input)))"
  using generatePrompt_deterministic
    [of "''poll''" remote_work_input remote_work_input
      "post_request (poll_template remote_work_input)" "answering None ''Hello''" remote_work
      "post_request (poll_template remote_work_input)"
      "answering (Some Map.empty) ''Bonjour''\<lparr>redis_get_error := None\<rparr>"]
  by (simp add: generatePost_answered generatePost_miss remote_work_valid remote_work_prompt)
     (simp add: generatePrompt_def promptTemplates_def post_request_def)

section \<open>Upstream payloads and cache writes\<close>

text \<open>
  The post route takes the content of the first choice as it comes. When the first
  choice has no content the request is answered as a success, with \<^verbatim>\<open>content: null\<close>,
  and that answer is written to the cache.
\<close>

lemma generatePost_null_content:
  assumes "snd (checkCache e b) = None"
    "contentSchema_parse b = Inr v" "\<not> api_key_missing e"
    "generatePrompt (postType v) v = Inr prompt"
    "chat_create e (post_request prompt) = Inr c" "choices c = None # others"
    "redis e = Some store" "redis_setex_error e = None"
  shows "chat_failed e (post_request prompt) \<and>
         reply (generatePost e b) =
           \<lparr>status = 200,
            body = JObj ([(''success'', JBool True), (''content'', JNull)] @
                         optional_member ''usage'' (usage c))\<rparr> \<and>
         cache_after (generatePost e b) =
           Some (store(''content:'' @ JSON_stringify b \<mapsto>
              \<lparr>ttl = 3600,
               cached = JObj ([(''success'', JBool True), (''content'', JNull)] @
                              optional_member ''usage'' (usage c))\<rparr>))"
proof -
  have "generatePost_handler e b =
          ([Validate, ChatCall (post_request prompt),
            CacheSet (''content:'' @ JSON_stringify b)],
           Some (store(''content:'' @ JSON_stringify b \<mapsto>
              \<lparr>ttl = 3600,
               cached = JObj ([(''success'', JBool True), (''content'', JNull)] @
                 optional_member ''usage'' (usage c))\<rparr>)),
           Inr (JObj ([(''success'', JBool True), (''content'', JNull)] @
                 optional_member ''usage'' (usage c))))"
    using assms
    by (simp add: generatePost_handler_def post_request_def cache_result_def
        null_or_string_def)
  then show ?thesis
    using assms(1,5,6) by (simp add: generatePost_def route_next chat_failed_def)
qed

lemma generatePost_unreadable:
  "generatePost (unreadable (Some Map.empty)) remote_work =
     \<lparr>reply = \<lparr>status = 200,
               body = JObj [(''success'', JBool True), (''content'', JNull)]\<rparr>,
      cache_after = Some [''content:'' @ JSON_stringify remote_work \<mapsto>
         \<lparr>ttl = 3600, cached = JObj [(''success'', JBool True), (''content'', JNull)]\<rparr>],
      events = [CacheGet (''content:'' @ JSON_stringify remote_work), Validate,
                ChatCall (post_request (poll_template remote_work_input)),
                CacheSet (''content:'' @ JSON_stringify remote_work)]\<rparr>"
  by (simp add: generatePost_def route_def checkCache_def generatePost_handler_def
      unreadable_def api_key_missing_def remote_work_valid remote_work_prompt cache_result_def
      post_request_def null_or_string_def optional_member_def)

lemma generatePoll_unreadable:
  "generatePoll (unreadable (Some Map.empty)) remote_work =
     \<lparr>reply = internal_server_error, cache_after = Some Map.empty,
      events = [CacheGet (''content:'' @ JSON_stringify remote_work), Validate,
                ChatCall (poll_request remote_work)]\<rparr>"
  by (simp add: generatePoll_def route_def checkCache_def generatePoll_handler_def
      unreadable_def api_key_missing_def truthy_topic errorHandler_def TypeError_def
      internal_server_error_def poll_request_def)

lemma generateImage_unreadable:
  "generateImage (unreadable (Some Map.empty)) a_cat =
     \<lparr>reply = internal_server_error, cache_after = Some Map.empty,
      events = [CacheGet (''content:'' @ JSON_stringify a_cat), Validate,
                ImageCall (image_request_of (JStr ''a cat''))]\<rparr>"
  by (simp add: generateImage_def route_def checkCache_def generateImage_handler_def
      unreadable_def api_key_missing_def errorHandler_def first_url_def
      internal_server_error_def image_request_of_def a_cat_def)

lemma generatePoll_timeout_on:
  assumes "store (''content:'' @ JSON_stringify remote_work) = None"
  shows "generatePoll (failing (Some store) timed_out) remote_work =
     \<lparr>reply = internal_server_error, cache_after = Some store,
      events = [CacheGet (''content:'' @ JSON_stringify remote_work), Validate,
                ChatCall (poll_request remote_work)]\<rparr>"
  using assms
  by (simp add: generatePoll_def route_def checkCache_def generatePoll_handler_def
      failing_def api_key_missing_def truthy_topic errorHandler_def timed_out_def
      poll_request_def internal_server_error_def)

text \<open>
  C6 at a malformed completion. The post route does not check what it reads from the
  payload: a completion whose first choice has no content is an upstream failure, yet
  the request is answered with \<^verbatim>\<open>success: true\<close> and the answer is cached for an
  hour. The image route checks its payload and answers an error with the cache left
  alone, and the poll route throws on the same completion. Besides, a poll request
  whose upstream call times out after an identical request succeeded leaves the
  earlier result in the cache, under the key the poll route writes.
\<close>

theorem malformed_completion_cached_as_success:
  "chat_failed (unreadable (Some Map.empty))
     (post_request (poll_template remote_work_input)) \<and>
   generatePost (unreadable (Some Map.empty)) remote_work =
     \<lparr>reply = \<lparr>status = 200,
               body = JObj [(''success'', JBool True), (''content'', JNull)]\<rparr>,
      cache_after = Some [''content:'' @ JSON_stringify remote_work \<mapsto>
         \<lparr>ttl = 3600, cached = JObj [(''success'', JBool True), (''content'', JNull)]\<rparr>],
      events = [CacheGet (''content:'' @ JSON_stringify remote_work), Validate,
                ChatCall (post_request (poll_template remote_work_input)),
                CacheSet (''content:'' @ JSON_stringify remote_work)]\<rparr> \<and>
   image_failed (unreadable (Some Map.empty)) (image_request_of (JStr ''a cat'')) \<and>
   generateImage (unreadable (Some Map.empty)) a_cat =
     \<lparr>reply = internal_server_error, cache_after = Some Map.empty,
      events = [CacheGet (''content:'' @ JSON_stringify a_cat), Validate,
                ImageCall (image_request_of (JStr ''a cat''))]\<rparr> \<and>
   generatePoll (unreadable (Some Map.empty)) remote_work =
     \<lparr>reply = internal_server_error, cache_after = Some Map.empty,
      events = [CacheGet (''content:'' @ JSON_stringify remote_work), Validate,
                ChatCall (poll_request remote_work)]\<rparr> \<and>
   generatePoll
     (failing (cache_after (generatePoll (answering (Some Map.empty) poll_text) remote_work))
        timed_out) remote_work =
     \<lparr>reply = internal_server_error,
      cache_after = Some [''poll:'' @ JSON_stringify remote_work \<mapsto>
                            \<lparr>ttl = 3600, cached = parsed_poll\<rparr>],
      events = [CacheGet (''content:'' @ JSON_stringify remote_work), Validate,
                ChatCall (poll_request remote_work)]\<rparr>"
  by (simp add: generatePost_unreadable generateImage_unreadable generatePoll_unreadable
      generatePoll_miss generatePoll_timeout_on)
     (simp add: chat_failed_def image_failed_def unreadable_def first_url_def)

text \<open>
  The three handlers await \<^verbatim>\<open>redis.setex\<close> inside their \<^verbatim>\<open>try\<close> block with no
  guard of its own: a rejected write is thrown, after the upstream call.
\<close>

lemma cache_write_failure_thrown:
  assumes "redis e = Some store" "redis_setex_error e = Some err"
  shows "cache_result e k result evs = (evs @ [CacheSet k], Some store, Inl err)"
  using assms by (simp add: cache_result_def)

lemma generatePost_write_failure:
  assumes "redis e = Some store" "redis_setex_error e = Some err"
    "snd (checkCache e b) = None"
    "contentSchema_parse b = Inr v" "\<not> api_key_missing e"
    "generatePrompt (postType v) v = Inr prompt"
    "chat_create e (post_request prompt) = Inr c" "choices c = choice # others"
  shows "reply (generatePost e b) = errorHandler err \<and>
         cache_after (generatePost e b) = Some store \<and>
         ChatCall (post_request prompt) \<in> set (events (generatePost e b))"
proof -
  have "generatePost_handler e b =
          ([Validate, ChatCall (post_request prompt),
            CacheSet (''content:'' @ JSON_stringify b)], Some store, Inl err)"
    using assms
    by (simp add: generatePost_handler_def post_request_def cache_result_def)
  then show ?thesis
    using assms(3) by (simp add: generatePost_def route_next)
qed

lemma generatePost_backend_down:
  "generatePost (backend_down store raw) remote_work =
     \<lparr>reply = internal_server_error, cache_after = Some store,
      events = [CacheGet (''content:'' @ JSON_stringify remote_work), Validate,
                ChatCall (post_request (poll_template remote_work_input)),
                CacheSet (''content:'' @ JSON_stringify remote_work)]\<rparr>"
  by (simp add: generatePost_def route_def checkCache_def generatePost_handler_def
      backend_down_def answering_def api_key_missing_def remote_work_valid remote_work_prompt
      cache_result_def post_request_def errorHandler_def outage_def
      internal_server_error_def)

lemma generatePoll_backend_down:
  "generatePoll (backend_down store poll_text) remote_work =
     \<lparr>reply = internal_server_error, cache_after = Some store,
      events = [CacheGet (''content:'' @ JSON_stringify remote_work), Validate,
                ChatCall (poll_request remote_work),
                CacheSet (''poll:'' @ JSON_stringify remote_work)]\<rparr>"
  by (simp add: generatePoll_def route_def checkCache_def generatePoll_handler_def
      backend_down_def answering_def api_key_missing_def truthy_topic parse_poll_text
      cache_result_def poll_request_def errorHandler_def outage_def
      internal_server_error_def)

lemma generateImage_backend_down:
  "generateImage (backend_down store ''https://images.example/cat.png'') a_cat =
     \<lparr>reply = internal_server_error, cache_after = Some store,
      events = [CacheGet (''content:'' @ JSON_stringify a_cat), Validate,
                ImageCall (image_request_of (JStr ''a cat'')),
                CacheSet ''image:a cat'']\<rparr>"
  by (simp add: generateImage_def route_def checkCache_def generateImage_handler_def
      backend_down_def answering_def api_key_missing_def a_cat_def cache_result_def
      first_url_def image_request_of_def errorHandler_def outage_def
      internal_server_error_def)

text \<open>
  C10 at a Redis server that is down. The rejected \<^verbatim>\<open>get\<close> is caught and the request
  goes on as on a miss, up to an upstream call that succeeds; the \<^verbatim>\<open>setex\<close> that
  follows rejects as well, and the request is answered with status 500 and no result,
  on the three routes. Without a Redis client the same post request is answered with
  its result.
\<close>

theorem failing_backend_fails_request:
  "redis_get_error (backend_down Map.empty ''Hello'') = Some outage \<and>
   generatePost (backend_down Map.empty ''Hello'') remote_work =
     \<lparr>reply = internal_server_error, cache_after = Some Map.empty,
      events = [CacheGet (''content:'' @ JSON_stringify remote_work), Validate,
                ChatCall (post_request (poll_template remote_work_input)),
                CacheSet (''content:'' @ JSON_stringify remote_work)]\<rparr> \<and>
   generatePoll (backend_down Map.empty poll_text) remote_work =
     \<lparr>reply = internal_server_error, cache_after = Some Map.empty,
      events = [CacheGet (''content:'' @ JSON_stringify remote_work), Validate,
                ChatCall (poll_request remote_work),
                CacheSet (''poll:'' @ JSON_stringify remote_work)]\<rparr> \<and>
   generateImage (backend_down Map.empty ''https://images.example/cat.png'') a_cat =
     \<lparr>reply = internal_server_error, cache_after = Some Map.empty,
      events = [CacheGet (''content:'' @ JSON_stringify a_cat), Validate,
                ImageCall (image_request_of (JStr ''a cat'')),
                CacheSet ''image:a cat'']\<rparr> \<and>
   generatePost (answering None ''Hello'') remote_work =
     \<lparr>reply = \<lparr>status = 200,
               body = JObj [(''success'', JBool True), (''content'', JStr ''Hello'')]\<rparr>,
      cache_after = None,
      events = [Validate, ChatCall (post_request (poll_template remote_work_input))]\<rparr>"
  by (simp add: generatePost_backend_down generatePoll_backend_down
      generateImage_backend_down generatePost_answered)
     (simp add: backend_down_def answering_def)

end
